theory Spec2Isabelle
  imports Complex_Main "HOL-Library.AList" "HOL-Library.Monad_Syntax"
begin

section \<open>Component registry (ragbuilder/config/components.py)\<close>

subsection \<open>Python string helpers\<close>

text \<open>
  \<^verbatim>\<open>s.replace(old, new)\<close>: every non-overlapping occurrence of \<open>old\<close>, scanning from the
  left, is replaced by \<open>new\<close>. With an empty \<open>old\<close> Python puts \<open>new\<close> before every
  character and at the end.
\<close>

function str_replace :: "string \<Rightarrow> string \<Rightarrow> string \<Rightarrow> string" where
  "str_replace old new s =
     (if old = [] then new @ concat (map (\<lambda>c. c # new) s)
      else (case s of
              [] \<Rightarrow> []
            | c # cs \<Rightarrow>
                if take (length old) s = old
                then new @ str_replace old new (drop (length old) s)
                else c # str_replace old new cs))"
  by pat_completeness auto
termination
  by (relation "measure (\<lambda>(old, new, s). length s)") auto

declare str_replace.simps [simp del]

text \<open>\<^verbatim>\<open>sub in s\<close> on two strings: \<open>sub\<close> occurs in \<open>s\<close> as a contiguous run.\<close>

fun str_contains :: "string \<Rightarrow> string \<Rightarrow> bool" where
  "str_contains sub [] = (sub = [])"
| "str_contains sub (c # cs) =
     (take (length sub) (c # cs) = sub \<or> str_contains sub cs)"

subsection \<open>Package requirement specs\<close>

record PkgSpec =
  install_name :: string
  import_name :: string

text \<open>
  The dataclass constructor followed by \<^verbatim>\<open>__post_init__\<close>: an empty \<open>import_name\<close> (the
  default of the second argument) is replaced by the install name with hyphens turned into
  underscores.
\<close>

definition mk_PkgSpec :: "string \<Rightarrow> string \<Rightarrow> PkgSpec" where
  "mk_PkgSpec inst imp =
     (if imp = [] then \<lparr>install_name = inst, import_name = str_replace ''-'' ''_'' inst\<rparr>
      else \<lparr>install_name = inst, import_name = imp\<rparr>)"

text \<open>
  \<^verbatim>\<open>validate\<close>: the set of importable modules is the environment; the result is the empty
  string when the import succeeds and the install name otherwise.
\<close>

definition validate :: "(string \<Rightarrow> bool) \<Rightarrow> PkgSpec \<Rightarrow> string" where
  "validate importable p = (if importable (import_name p) then [] else install_name p)"

text \<open>What the specification calls the normalisation rule, written on its own.\<close>

definition hyphens_to_underscores :: "string \<Rightarrow> string" where
  "hyphens_to_underscores s = map (\<lambda>c. if c = CHR ''-'' then CHR ''_'' else c) s"

subsection \<open>Component enumerations\<close>

datatype ParserType =
  Parser_UNSTRUCTURED | Parser_PYMUPDF | Parser_PYPDF | Parser_DOCX | Parser_AZURE_BLOB
  | Parser_S3 | Parser_DIRECTORY | Parser_WEB | Parser_CUSTOM

datatype ChunkingStrategy =
  Chunking_CHARACTER | Chunking_RECURSIVE | Chunking_TOKEN | Chunking_MARKDOWN
  | Chunking_HTML | Chunking_SEMANTIC | Chunking_CUSTOM

datatype EmbeddingModel =
  Embedding_OPENAI | Embedding_AZURE_OPENAI | Embedding_HUGGINGFACE | Embedding_OLLAMA
  | Embedding_COHERE | Embedding_VERTEXAI | Embedding_BEDROCK | Embedding_JINA
  | Embedding_CUSTOM

datatype VectorDatabase =
  VectorDB_FAISS | VectorDB_CHROMA | VectorDB_PINECONE | VectorDB_WEAVIATE | VectorDB_QDRANT
  | VectorDB_MILVUS | VectorDB_PGVECTOR | VectorDB_ELASTICSEARCH | VectorDB_CUSTOM

datatype RetrieverType =
  Retriever_SIMILARITY | Retriever_MMR | Retriever_MULTI_QUERY | Retriever_BM25
  | Retriever_PARENT_DOC_RETRIEVER_FULL | Retriever_PARENT_DOC_RETRIEVER_LARGE
  | Retriever_GRAPH_RETRIEVER | Retriever_CUSTOM

datatype EvaluatorType = Evaluator_SIMILARITY | Evaluator_RAGAS | Evaluator_CUSTOM

text \<open>The string value of each member, and the members of each enumeration in order.\<close>

fun ParserType_value :: "ParserType \<Rightarrow> string" where
  "ParserType_value Parser_UNSTRUCTURED = ''unstructured''"
| "ParserType_value Parser_PYMUPDF = ''pymupdf''"
| "ParserType_value Parser_PYPDF = ''pypdf''"
| "ParserType_value Parser_DOCX = ''docx''"
| "ParserType_value Parser_AZURE_BLOB = ''azure_blob''"
| "ParserType_value Parser_S3 = ''s3''"
| "ParserType_value Parser_DIRECTORY = ''directory''"
| "ParserType_value Parser_WEB = ''web''"
| "ParserType_value Parser_CUSTOM = ''custom''"

definition ParserType_members :: "ParserType list" where
  "ParserType_members =
     [Parser_UNSTRUCTURED, Parser_PYMUPDF, Parser_PYPDF, Parser_DOCX, Parser_AZURE_BLOB,
      Parser_S3, Parser_DIRECTORY, Parser_WEB, Parser_CUSTOM]"

fun ChunkingStrategy_value :: "ChunkingStrategy \<Rightarrow> string" where
  "ChunkingStrategy_value Chunking_CHARACTER = ''CharacterTextSplitter''"
| "ChunkingStrategy_value Chunking_RECURSIVE = ''RecursiveCharacterTextSplitter''"
| "ChunkingStrategy_value Chunking_TOKEN = ''TokenTextSplitter''"
| "ChunkingStrategy_value Chunking_MARKDOWN = ''MarkdownHeaderTextSplitter''"
| "ChunkingStrategy_value Chunking_HTML = ''HTMLHeaderTextSplitter''"
| "ChunkingStrategy_value Chunking_SEMANTIC = ''SemanticChunker''"
| "ChunkingStrategy_value Chunking_CUSTOM = ''custom''"

definition ChunkingStrategy_members :: "ChunkingStrategy list" where
  "ChunkingStrategy_members =
     [Chunking_CHARACTER, Chunking_RECURSIVE, Chunking_TOKEN, Chunking_MARKDOWN,
      Chunking_HTML, Chunking_SEMANTIC, Chunking_CUSTOM]"

fun EmbeddingModel_value :: "EmbeddingModel \<Rightarrow> string" where
  "EmbeddingModel_value Embedding_OPENAI = ''openai''"
| "EmbeddingModel_value Embedding_AZURE_OPENAI = ''azure_openai''"
| "EmbeddingModel_value Embedding_HUGGINGFACE = ''huggingface''"
| "EmbeddingModel_value Embedding_OLLAMA = ''ollama''"
| "EmbeddingModel_value Embedding_COHERE = ''cohere''"
| "EmbeddingModel_value Embedding_VERTEXAI = ''vertexai''"
| "EmbeddingModel_value Embedding_BEDROCK = ''bedrock''"
| "EmbeddingModel_value Embedding_JINA = ''jina''"
| "EmbeddingModel_value Embedding_CUSTOM = ''custom''"

definition EmbeddingModel_members :: "EmbeddingModel list" where
  "EmbeddingModel_members =
     [Embedding_OPENAI, Embedding_AZURE_OPENAI, Embedding_HUGGINGFACE, Embedding_OLLAMA,
      Embedding_COHERE, Embedding_VERTEXAI, Embedding_BEDROCK, Embedding_JINA,
      Embedding_CUSTOM]"

fun VectorDatabase_value :: "VectorDatabase \<Rightarrow> string" where
  "VectorDatabase_value VectorDB_FAISS = ''faiss''"
| "VectorDatabase_value VectorDB_CHROMA = ''chroma''"
| "VectorDatabase_value VectorDB_PINECONE = ''pinecone''"
| "VectorDatabase_value VectorDB_WEAVIATE = ''weaviate''"
| "VectorDatabase_value VectorDB_QDRANT = ''qdrant''"
| "VectorDatabase_value VectorDB_MILVUS = ''milvus''"
| "VectorDatabase_value VectorDB_PGVECTOR = ''pgvector''"
| "VectorDatabase_value VectorDB_ELASTICSEARCH = ''elasticsearch''"
| "VectorDatabase_value VectorDB_CUSTOM = ''custom''"

definition VectorDatabase_members :: "VectorDatabase list" where
  "VectorDatabase_members =
     [VectorDB_FAISS, VectorDB_CHROMA, VectorDB_PINECONE, VectorDB_WEAVIATE, VectorDB_QDRANT,
      VectorDB_MILVUS, VectorDB_PGVECTOR, VectorDB_ELASTICSEARCH, VectorDB_CUSTOM]"

fun EvaluatorType_value :: "EvaluatorType \<Rightarrow> string" where
  "EvaluatorType_value Evaluator_SIMILARITY = ''similarity''"
| "EvaluatorType_value Evaluator_RAGAS = ''ragas''"
| "EvaluatorType_value Evaluator_CUSTOM = ''custom''"

definition EvaluatorType_members :: "EvaluatorType list" where
  "EvaluatorType_members = [Evaluator_SIMILARITY, Evaluator_RAGAS, Evaluator_CUSTOM]"

text \<open>
  \<^verbatim>\<open>EnumClass(value)\<close>: the first member, in definition order, whose value equals the given
  string; no member when there is none.
\<close>

definition enum_of_value :: "('e \<Rightarrow> string) \<Rightarrow> 'e list \<Rightarrow> string \<Rightarrow> 'e option" where
  "enum_of_value val members s = List.find (\<lambda>m. val m = s) members"

subsection \<open>Lazy loading and the dispatch tables\<close>

text \<open>
  \<^verbatim>\<open>lazy_load(module_path, class_name)\<close> imports nothing: it returns a closure that remembers
  the two names. The closure is modelled by the pair it captures.
\<close>

type_synonym lazy_class = "string \<times> string"

definition lazy_load :: "string \<Rightarrow> string \<Rightarrow> lazy_class" where
  "lazy_load module_path class_name = (module_path, class_name)"

definition LOADER_MAP :: "ParserType \<rightharpoonup> lazy_class" where
  "LOADER_MAP = map_of
     [(Parser_UNSTRUCTURED, lazy_load ''langchain_community.document_loaders'' ''UnstructuredFileLoader''),
      (Parser_PYMUPDF, lazy_load ''langchain_community.document_loaders'' ''PyMuPDFLoader''),
      (Parser_PYPDF, lazy_load ''langchain_community.document_loaders'' ''PyPDFLoader''),
      (Parser_DOCX, lazy_load ''langchain_community.document_loaders'' ''Docx2txtLoader''),
      (Parser_AZURE_BLOB, lazy_load ''langchain_community.document_loaders'' ''AzureBlobStorageContainerLoader''),
      (Parser_S3, lazy_load ''langchain_community.document_loaders'' ''S3DirectoryLoader''),
      (Parser_DIRECTORY, lazy_load ''langchain_community.document_loaders'' ''DirectoryLoader''),
      (Parser_WEB, lazy_load ''langchain_community.document_loaders'' ''WebBaseLoader'')]"

definition CHUNKER_MAP :: "ChunkingStrategy \<rightharpoonup> lazy_class" where
  "CHUNKER_MAP = map_of
     [(Chunking_CHARACTER, lazy_load ''langchain_text_splitters'' ''CharacterTextSplitter''),
      (Chunking_RECURSIVE, lazy_load ''langchain_text_splitters'' ''RecursiveCharacterTextSplitter''),
      (Chunking_TOKEN, lazy_load ''langchain_text_splitters'' ''TokenTextSplitter''),
      (Chunking_MARKDOWN, lazy_load ''langchain_text_splitters'' ''MarkdownHeaderTextSplitter''),
      (Chunking_HTML, lazy_load ''langchain_text_splitters'' ''HTMLHeaderTextSplitter''),
      (Chunking_SEMANTIC, lazy_load ''langchain_experimental.text_splitter'' ''SemanticChunker'')]"

definition EMBEDDING_MAP :: "EmbeddingModel \<rightharpoonup> lazy_class" where
  "EMBEDDING_MAP = map_of
     [(Embedding_OPENAI, lazy_load ''langchain_openai'' ''OpenAIEmbeddings''),
      (Embedding_AZURE_OPENAI, lazy_load ''langchain_openai'' ''AzureOpenAIEmbeddings''),
      (Embedding_HUGGINGFACE, lazy_load ''langchain_huggingface'' ''HuggingFaceEmbeddings''),
      (Embedding_OLLAMA, lazy_load ''langchain_community.embeddings'' ''OllamaEmbeddings''),
      (Embedding_COHERE, lazy_load ''langchain_community.embeddings'' ''CohereEmbeddings''),
      (Embedding_VERTEXAI, lazy_load ''langchain_community.embeddings'' ''VertexAIEmbeddings''),
      (Embedding_BEDROCK, lazy_load ''langchain_community.embeddings'' ''BedrockEmbeddings''),
      (Embedding_JINA, lazy_load ''langchain_community.embeddings'' ''JinaEmbeddings'')]"

definition VECTORDB_MAP :: "VectorDatabase \<rightharpoonup> lazy_class" where
  "VECTORDB_MAP = map_of
     [(VectorDB_FAISS, lazy_load ''langchain.vectorstores'' ''FAISS''),
      (VectorDB_CHROMA, lazy_load ''langchain.vectorstores'' ''Chroma''),
      (VectorDB_PINECONE, lazy_load ''langchain.vectorstores'' ''Pinecone''),
      (VectorDB_WEAVIATE, lazy_load ''langchain.vectorstores'' ''Weaviate''),
      (VectorDB_QDRANT, lazy_load ''langchain.vectorstores'' ''Qdrant''),
      (VectorDB_MILVUS, lazy_load ''langchain.vectorstores'' ''Milvus''),
      (VectorDB_PGVECTOR, lazy_load ''langchain.vectorstores'' ''PGVector''),
      (VectorDB_ELASTICSEARCH, lazy_load ''langchain.vectorstores'' ''ElasticsearchStore'')]"

definition RETRIEVER_MAP :: "RetrieverType \<rightharpoonup> lazy_class" where
  "RETRIEVER_MAP = map_of
     [(Retriever_BM25, lazy_load ''langchain.retrievers'' ''BM25Retriever'')]"

section \<open>Configuration schema and loader (ragbuilder/data_ingest/config.py)\<close>

subsection \<open>YAML documents and the values they load to\<close>

text \<open>
  The values \<^verbatim>\<open>yaml.safe_load\<close> builds: \<^verbatim>\<open>None\<close>, booleans, integers, floats, strings,
  lists and dicts. A float is its exact rational value (infinities and NaN are left out,
  and no rounding is modelled). A dict is an association list in insertion order with
  distinct keys; keys are compared structurally.
\<close>

datatype yaml =
  YNull | YBool bool | YInt int | YFloat rat | YStr string
  | YList "yaml list" | YMap "(yaml \<times> yaml) list"

text \<open>
  The content of a YAML file, as the tree of its nodes. Besides the plain nodes there is the
  node that \<^verbatim>\<open>yaml.dump\<close> writes for a Python object it has no plain representation for:
  the tag \<^verbatim>\<open>!!python/object/apply:<name>\<close> followed by the constructor arguments.
\<close>

datatype ydoc =
  DNull | DBool bool | DInt int | DFloat rat | DStr string
  | DSeq "ydoc list" | DMap "(ydoc \<times> ydoc) list"
  | DPyObjectApply string "ydoc list"

datatype errkind = Missing | Invalid

text \<open>
  A pydantic \<^verbatim>\<open>ValidationError\<close>: the name of the model that was validated and, in field
  order, the top-level fields that failed, each either missing or invalid.
\<close>

datatype validation_error = ValidationError string "(string \<times> errkind) list"

text \<open>
  The exceptions that leave \<^verbatim>\<open>load_config\<close>. \<open>ValueError_Invalid_configuration e\<close> is
  \<^verbatim>\<open>ValueError(f"Invalid configuration: {str(e)}")\<close>.
\<close>

datatype error =
  ConstructorError
  | TypeError
  | ValueError string
  | ValueError_Invalid_configuration validation_error

fun sequence_sum :: "('e + 'a) list \<Rightarrow> 'e + 'a list" where
  "sequence_sum [] = Inr []"
| "sequence_sum (x # xs) =
     (case x of
        Inl e \<Rightarrow> Inl e
      | Inr a \<Rightarrow> (case sequence_sum xs of Inl e \<Rightarrow> Inl e | Inr as \<Rightarrow> Inr (a # as)))"

fun hashable :: "yaml \<Rightarrow> bool" where
  "hashable (YList xs) = False"
| "hashable (YMap d) = False"
| "hashable v = True"

text \<open>Filling a dict pair by pair: a key that is already there keeps its place.\<close>

definition dict_of :: "(yaml \<times> yaml) list \<Rightarrow> (yaml \<times> yaml) list" where
  "dict_of kvs = foldl (\<lambda>d (k, v). AList.update k v d) [] kvs"

text \<open>
  \<^verbatim>\<open>yaml.safe_load\<close> on a parsed file. The safe loader has no constructor for the Python
  object tags and raises a constructor error on them, as it does on a mapping key that is a
  list or a dict.
\<close>

fun safe_load :: "ydoc \<Rightarrow> error + yaml" where
  "safe_load DNull = Inr YNull"
| "safe_load (DBool b) = Inr (YBool b)"
| "safe_load (DInt n) = Inr (YInt n)"
| "safe_load (DFloat f) = Inr (YFloat f)"
| "safe_load (DStr s) = Inr (YStr s)"
| "safe_load (DSeq xs) =
     (case sequence_sum (map safe_load xs) of
        Inl e \<Rightarrow> Inl e
      | Inr vs \<Rightarrow> Inr (YList vs))"
| "safe_load (DMap ps) =
     (case sequence_sum
             (map (\<lambda>p. case safe_load (fst p) of
                          Inl e \<Rightarrow> Inl e
                        | Inr k \<Rightarrow>
                            if hashable k
                            then (case safe_load (snd p) of
                                    Inl e \<Rightarrow> Inl e
                                  | Inr v \<Rightarrow> Inr (k, v))
                            else Inl ConstructorError) ps) of
        Inl e \<Rightarrow> Inl e
      | Inr kvs \<Rightarrow> Inr (YMap (dict_of kvs)))"
| "safe_load (DPyObjectApply name args) = Inl ConstructorError"

text \<open>How \<^verbatim>\<open>yaml.dump\<close> writes a plain value.\<close>

fun represent :: "yaml \<Rightarrow> ydoc" where
  "represent YNull = DNull"
| "represent (YBool b) = DBool b"
| "represent (YInt n) = DInt n"
| "represent (YFloat f) = DFloat f"
| "represent (YStr s) = DStr s"
| "represent (YList xs) = DSeq (map represent xs)"
| "represent (YMap d) = DMap (map (\<lambda>p. (represent (fst p), represent (snd p))) d)"

subsection \<open>What the module takes from outside\<close>

text \<open>
  The source reads the clock and the random generator once, while the class
  \<^verbatim>\<open>OptimizationConfig\<close> is being defined, and pydantic converts strings to numbers and
  booleans when a field asks for one. Those conversions are not part of the source; they are
  parameters here, so that what is proved holds for any of them.
\<close>

record env =
  class_definition_time :: rat
  class_definition_randint :: int
  str_as_int :: "string \<Rightarrow> int option"
  str_as_float :: "string \<Rightarrow> rat option"
  str_as_bool :: "string \<Rightarrow> bool option"

fun str_of_nat :: "nat \<Rightarrow> string" where
  "str_of_nat n =
     (if n < 10 then [''0123456789'' ! n]
      else str_of_nat (n div 10) @ [''0123456789'' ! (n mod 10)])"

declare str_of_nat.simps [simp del]

definition str_of_int :: "int \<Rightarrow> string" where
  "str_of_int i = (if i < 0 then CHR ''-'' # str_of_nat (nat (- i)) else str_of_nat (nat i))"

text \<open>\<^verbatim>\<open>int(x)\<close> on a float rounds towards zero.\<close>

definition int_of_float :: "rat \<Rightarrow> int" where
  "int_of_float x = (if 0 \<le> x then \<lfloor>x\<rfloor> else \<lceil>x\<rceil>)"

text \<open>
  The default of \<open>study_name\<close>:
  \<^verbatim>\<open>f"data_ingest_{int(time.time()*1000+random.randint(1, 1000))}"\<close>. The f-string is an
  argument of \<^verbatim>\<open>Field(default=...)\<close> in the class body, so it is evaluated when the class
  is defined.
\<close>

definition default_study_name :: "env \<Rightarrow> string" where
  "default_study_name e =
     ''data_ingest_'' @
       str_of_int (int_of_float (class_definition_time e * 1000
                                  + of_int (class_definition_randint e)))"

subsection \<open>Field validators\<close>

text \<open>
  Each validator takes the loaded value and returns the field's value, or \<open>None\<close> when
  pydantic reports the input as invalid. Conversions follow pydantic's default (lax) mode.
\<close>

definition v_str :: "yaml \<Rightarrow> string option" where
  "v_str y = (case y of YStr s \<Rightarrow> Some s | _ \<Rightarrow> None)"

definition v_int :: "env \<Rightarrow> yaml \<Rightarrow> int option" where
  "v_int e y =
     (case y of
        YInt n \<Rightarrow> Some n
      | YBool b \<Rightarrow> Some (if b then 1 else 0)
      | YFloat f \<Rightarrow> (if of_int \<lfloor>f\<rfloor> = f then Some \<lfloor>f\<rfloor> else None)
      | YStr s \<Rightarrow> str_as_int e s
      | _ \<Rightarrow> None)"

definition v_float :: "env \<Rightarrow> yaml \<Rightarrow> rat option" where
  "v_float e y =
     (case y of
        YFloat f \<Rightarrow> Some f
      | YInt n \<Rightarrow> Some (of_int n)
      | YBool b \<Rightarrow> Some (if b then 1 else 0)
      | YStr s \<Rightarrow> str_as_float e s
      | _ \<Rightarrow> None)"

definition v_bool :: "env \<Rightarrow> yaml \<Rightarrow> bool option" where
  "v_bool e y =
     (case y of
        YBool b \<Rightarrow> Some b
      | YInt n \<Rightarrow> (if n = 0 then Some False else if n = 1 then Some True else None)
      | YFloat f \<Rightarrow> (if f = 0 then Some False else if f = 1 then Some True else None)
      | YStr s \<Rightarrow> str_as_bool e s
      | _ \<Rightarrow> None)"

text \<open>\<^verbatim>\<open>Optional[T]\<close>: \<^verbatim>\<open>None\<close> is accepted as it is.\<close>

definition v_optional :: "(yaml \<Rightarrow> 'a option) \<Rightarrow> yaml \<Rightarrow> 'a option option" where
  "v_optional v y = (case y of YNull \<Rightarrow> Some None | _ \<Rightarrow> map_option Some (v y))"

text \<open>\<^verbatim>\<open>List[T]\<close>: a list all of whose items are valid.\<close>

definition v_list :: "(yaml \<Rightarrow> 'a option) \<Rightarrow> yaml \<Rightarrow> 'a list option" where
  "v_list v y = (case y of YList xs \<Rightarrow> those (map v xs) | _ \<Rightarrow> None)"

text \<open>\<^verbatim>\<open>Dict[str, Any]\<close>: a dict all of whose keys are strings; the values are not looked at.\<close>

definition v_dict_str_any :: "yaml \<Rightarrow> (string \<times> yaml) list option" where
  "v_dict_str_any y =
     (case y of
        YMap d \<Rightarrow> those (map (\<lambda>p. case fst p of YStr k \<Rightarrow> Some (k, snd p) | _ \<Rightarrow> None) d)
      | _ \<Rightarrow> None)"

text \<open>An enumeration field: a string that is the value of a member.\<close>

definition v_enum :: "('e \<Rightarrow> string) \<Rightarrow> 'e list \<Rightarrow> yaml \<Rightarrow> 'e option" where
  "v_enum val members y = (case y of YStr s \<Rightarrow> enum_of_value val members s | _ \<Rightarrow> None)"

text \<open>
  A field of a nested model, read from the dict \<open>d\<close>: the validated value when the key is
  there, the default otherwise. A required field has no default and is invalid when absent.
  Keys of \<open>d\<close> that name no field are not looked at: none of the models sets
  \<^verbatim>\<open>extra\<close>, and pydantic's default is to ignore them.
\<close>

definition nested_field ::
  "(yaml \<times> yaml) list \<Rightarrow> string \<Rightarrow> (yaml \<Rightarrow> 'a option) \<Rightarrow> 'a option \<Rightarrow> 'a option" where
  "nested_field d name v dflt = (case map_of d (YStr name) of None \<Rightarrow> dflt | Some y \<Rightarrow> v y)"

subsection \<open>The nested models\<close>

record LogConfig =
  log_level :: int
  log_file :: "string option"
  show_progress_bar :: bool
  verbose :: bool

record LoaderConfig =
  loader_type :: ParserType
  loader_kwargs :: "(string \<times> yaml) list option"
  loader_custom_class :: "string option"

record ChunkingStrategyConfig =
  chunker_type :: ChunkingStrategy
  chunker_kwargs :: "(string \<times> yaml) list option"
  chunker_custom_class :: "string option"

record ChunkSizeConfig =
  size_min :: int
  size_max :: int
  stepsize :: int

record VectorDBConfig =
  vectordb_type :: VectorDatabase
  vectordb_kwargs :: "(string \<times> yaml) list option"
  vectordb_custom_class :: "string option"

record EmbeddingConfig =
  embedding_type :: EmbeddingModel
  model_kwargs :: "(string \<times> yaml) list option"
  embedding_custom_class :: "string option"

record EvaluationConfig =
  evaluator_type :: EvaluatorType
  evaluator_custom_class :: "string option"
  evaluator_kwargs :: "(string \<times> yaml) list option"

record OptimizationConfig =
  optimizer_type :: "string option"
  n_trials :: "int option"
  n_jobs :: "int option"
  timeout :: "int option"
  storage :: "string option"
  study_name :: "string option"
  load_if_exists :: "bool option"
  overwrite_study :: "bool option"
  optimization_direction :: "string option"

definition v_LogConfig :: "env \<Rightarrow> yaml \<Rightarrow> LogConfig option" where
  "v_LogConfig e y =
     (case y of
        YMap d \<Rightarrow> do {
          lv \<leftarrow> nested_field d ''log_level'' (v_int e) (Some 20);
          lf \<leftarrow> nested_field d ''log_file'' (v_optional v_str) (Some None);
          sp \<leftarrow> nested_field d ''show_progress_bar'' (v_bool e) (Some True);
          vb \<leftarrow> nested_field d ''verbose'' (v_bool e) (Some False);
          Some \<lparr>log_level = lv, log_file = lf, show_progress_bar = sp, verbose = vb\<rparr>
        }
      | _ \<Rightarrow> None)"

definition v_LoaderConfig :: "yaml \<Rightarrow> LoaderConfig option" where
  "v_LoaderConfig y =
     (case y of
        YMap d \<Rightarrow> do {
          t \<leftarrow> nested_field d ''type'' (v_enum ParserType_value ParserType_members) None;
          kw \<leftarrow> nested_field d ''loader_kwargs'' (v_optional v_dict_str_any) (Some None);
          cc \<leftarrow> nested_field d ''custom_class'' (v_optional v_str) (Some None);
          Some \<lparr>loader_type = t, loader_kwargs = kw, loader_custom_class = cc\<rparr>
        }
      | _ \<Rightarrow> None)"

definition v_ChunkingStrategyConfig :: "yaml \<Rightarrow> ChunkingStrategyConfig option" where
  "v_ChunkingStrategyConfig y =
     (case y of
        YMap d \<Rightarrow> do {
          t \<leftarrow> nested_field d ''type''
                 (v_enum ChunkingStrategy_value ChunkingStrategy_members) None;
          kw \<leftarrow> nested_field d ''chunker_kwargs'' (v_optional v_dict_str_any) (Some None);
          cc \<leftarrow> nested_field d ''custom_class'' (v_optional v_str) (Some None);
          Some \<lparr>chunker_type = t, chunker_kwargs = kw, chunker_custom_class = cc\<rparr>
        }
      | _ \<Rightarrow> None)"

definition v_ChunkSizeConfig :: "env \<Rightarrow> yaml \<Rightarrow> ChunkSizeConfig option" where
  "v_ChunkSizeConfig e y =
     (case y of
        YMap d \<Rightarrow> do {
          mn \<leftarrow> nested_field d ''min'' (v_int e) (Some 100);
          mx \<leftarrow> nested_field d ''max'' (v_int e) (Some 500);
          st \<leftarrow> nested_field d ''stepsize'' (v_int e) (Some 100);
          Some \<lparr>size_min = mn, size_max = mx, stepsize = st\<rparr>
        }
      | _ \<Rightarrow> None)"

definition v_VectorDBConfig :: "yaml \<Rightarrow> VectorDBConfig option" where
  "v_VectorDBConfig y =
     (case y of
        YMap d \<Rightarrow> do {
          t \<leftarrow> nested_field d ''type''
                 (v_enum VectorDatabase_value VectorDatabase_members) None;
          kw \<leftarrow> nested_field d ''vectordb_kwargs'' (v_optional v_dict_str_any) (Some (Some []));
          cc \<leftarrow> nested_field d ''custom_class'' (v_optional v_str) (Some None);
          Some \<lparr>vectordb_type = t, vectordb_kwargs = kw, vectordb_custom_class = cc\<rparr>
        }
      | _ \<Rightarrow> None)"

definition v_EmbeddingConfig :: "yaml \<Rightarrow> EmbeddingConfig option" where
  "v_EmbeddingConfig y =
     (case y of
        YMap d \<Rightarrow> do {
          t \<leftarrow> nested_field d ''type''
                 (v_enum EmbeddingModel_value EmbeddingModel_members) None;
          kw \<leftarrow> nested_field d ''model_kwargs'' (v_optional v_dict_str_any) (Some (Some []));
          cc \<leftarrow> nested_field d ''custom_class'' (v_optional v_str) (Some None);
          Some \<lparr>embedding_type = t, model_kwargs = kw, embedding_custom_class = cc\<rparr>
        }
      | _ \<Rightarrow> None)"

definition default_evaluator_kwargs :: "(string \<times> yaml) list" where
  "default_evaluator_kwargs =
     [(''top_k'', YInt 5), (''position_weights'', YNull),
      (''relevance_threshold'', YFloat (3 / 4))]"

definition v_EvaluationConfig :: "yaml \<Rightarrow> EvaluationConfig option" where
  "v_EvaluationConfig y =
     (case y of
        YMap d \<Rightarrow> do {
          t \<leftarrow> nested_field d ''type''
                 (v_enum EvaluatorType_value EvaluatorType_members) (Some Evaluator_SIMILARITY);
          cc \<leftarrow> nested_field d ''custom_class'' (v_optional v_str) (Some None);
          kw \<leftarrow> nested_field d ''evaluator_kwargs'' (v_optional v_dict_str_any)
                  (Some (Some default_evaluator_kwargs));
          Some \<lparr>evaluator_type = t, evaluator_custom_class = cc, evaluator_kwargs = kw\<rparr>
        }
      | _ \<Rightarrow> None)"

definition v_OptimizationConfig :: "env \<Rightarrow> yaml \<Rightarrow> OptimizationConfig option" where
  "v_OptimizationConfig e y =
     (case y of
        YMap d \<Rightarrow> do {
          ty \<leftarrow> nested_field d ''type'' (v_optional v_str) (Some (Some ''Optuna''));
          nt \<leftarrow> nested_field d ''n_trials'' (v_optional (v_int e)) (Some (Some 10));
          nj \<leftarrow> nested_field d ''n_jobs'' (v_optional (v_int e)) (Some (Some 1));
          tm \<leftarrow> nested_field d ''timeout'' (v_optional (v_int e)) (Some None);
          sg \<leftarrow> nested_field d ''storage'' (v_optional v_str) (Some None);
          sn \<leftarrow> nested_field d ''study_name'' (v_optional v_str)
                  (Some (Some (default_study_name e)));
          li \<leftarrow> nested_field d ''load_if_exists'' (v_optional (v_bool e)) (Some (Some False));
          ov \<leftarrow> nested_field d ''overwrite_study'' (v_optional (v_bool e)) (Some (Some False));
          dr \<leftarrow> nested_field d ''optimization_direction'' (v_optional v_str)
                  (Some (Some ''maximize''));
          Some \<lparr>optimizer_type = ty, n_trials = nt, n_jobs = nj, timeout = tm, storage = sg,
                study_name = sn, load_if_exists = li, overwrite_study = ov,
                optimization_direction = dr\<rparr>
        }
      | _ \<Rightarrow> None)"

subsection \<open>The two configuration models\<close>

datatype input_source_value = Source string | Sources "string list"

text \<open>\<^verbatim>\<open>Union[str, List[str]]\<close>: a string, or a list of strings.\<close>

definition v_input_source :: "yaml \<Rightarrow> input_source_value option" where
  "v_input_source y =
     (case y of
        YStr s \<Rightarrow> Some (Source s)
      | YList xs \<Rightarrow> map_option Sources (v_list v_str y)
      | _ \<Rightarrow> None)"

record BaseConfig =
  input_source :: input_source_value
  test_dataset :: string

record DataIngestOptionsConfig = BaseConfig +
  document_loaders :: "LoaderConfig list option"
  chunking_strategies :: "ChunkingStrategyConfig list option"
  chunk_size :: "ChunkSizeConfig option"
  chunk_overlap :: "int list option"
  embedding_models :: "EmbeddingConfig list option"
  vector_databases :: "VectorDBConfig list option"
  sampling_rate :: "rat option"
  optimization :: "OptimizationConfig option"
  log_config :: "LogConfig option"
  database_logging :: "bool option"
  database_path :: "string option"
  evaluation_config :: EvaluationConfig

text \<open>
  The single-run model. Its \<open>chunk_size\<close>, \<open>chunk_overlap\<close> and \<open>sampling_rate\<close> carry
  the prefix \<open>single_\<close> here, since the multi-option model has fields of the same names.
\<close>

record DataIngestConfig = BaseConfig +
  document_loader :: LoaderConfig
  chunking_strategy :: ChunkingStrategyConfig
  single_chunk_size :: int
  single_chunk_overlap :: int
  embedding_model :: EmbeddingConfig
  vector_database :: VectorDBConfig
  single_sampling_rate :: "rat option"

datatype config = Options DataIngestOptionsConfig | Single DataIngestConfig

text \<open>
  A top-level field read from the keyword arguments: its value, or the one error pydantic
  records for it. Defaults are not validated. Keyword arguments that name no field are
  not looked at (pydantic's default \<^verbatim>\<open>extra='ignore'\<close>; the source sets no other).
\<close>

type_synonym 'a validated = "(string \<times> errkind) list + 'a"

definition field ::
  "(string \<times> yaml) list \<Rightarrow> string \<Rightarrow> (yaml \<Rightarrow> 'a option) \<Rightarrow> 'a option \<Rightarrow> 'a validated" where
  "field kw name v dflt =
     (case map_of kw name of
        None \<Rightarrow> (case dflt of None \<Rightarrow> Inl [(name, Missing)] | Some a \<Rightarrow> Inr a)
      | Some y \<Rightarrow> (case v y of None \<Rightarrow> Inl [(name, Invalid)] | Some a \<Rightarrow> Inr a))"

text \<open>All fields are validated and all their errors are collected, in field order.\<close>

fun ap :: "('a \<Rightarrow> 'b) validated \<Rightarrow> 'a validated \<Rightarrow> 'b validated" where
  "ap (Inr f) (Inr a) = Inr (f a)"
| "ap (Inr f) (Inl es) = Inl es"
| "ap (Inl es) (Inr a) = Inl es"
| "ap (Inl es) (Inl es') = Inl (es @ es')"

definition finish :: "string \<Rightarrow> 'a validated \<Rightarrow> validation_error + 'a" where
  "finish title r = (case r of Inl es \<Rightarrow> Inl (ValidationError title es) | Inr a \<Rightarrow> Inr a)"

definition default_LoaderConfig :: LoaderConfig where
  "default_LoaderConfig =
     \<lparr>loader_type = Parser_UNSTRUCTURED, loader_kwargs = None, loader_custom_class = None\<rparr>"

definition default_ChunkingStrategyConfig :: ChunkingStrategyConfig where
  "default_ChunkingStrategyConfig =
     \<lparr>chunker_type = Chunking_RECURSIVE, chunker_kwargs = None, chunker_custom_class = None\<rparr>"

definition default_ChunkSizeConfig :: ChunkSizeConfig where
  "default_ChunkSizeConfig = \<lparr>size_min = 100, size_max = 500, stepsize = 100\<rparr>"

definition default_EmbeddingConfig :: EmbeddingConfig where
  "default_EmbeddingConfig =
     \<lparr>embedding_type = Embedding_HUGGINGFACE,
      model_kwargs = Some [(''model_name'', YStr ''sentence-transformers/all-MiniLM-L6-v2'')],
      embedding_custom_class = None\<rparr>"

definition default_VectorDBConfig :: VectorDBConfig where
  "default_VectorDBConfig =
     \<lparr>vectordb_type = VectorDB_FAISS, vectordb_kwargs = Some [], vectordb_custom_class = None\<rparr>"

definition default_OptimizationConfig :: "env \<Rightarrow> OptimizationConfig" where
  "default_OptimizationConfig e =
     \<lparr>optimizer_type = Some ''Optuna'', n_trials = Some 10, n_jobs = Some 1, timeout = None,
      storage = None, study_name = Some (default_study_name e), load_if_exists = Some False,
      overwrite_study = Some False, optimization_direction = Some ''maximize''\<rparr>"

definition default_LogConfig :: LogConfig where
  "default_LogConfig =
     \<lparr>log_level = 20, log_file = None, show_progress_bar = True, verbose = False\<rparr>"

definition default_EvaluationConfig :: EvaluationConfig where
  "default_EvaluationConfig =
     \<lparr>evaluator_type = Evaluator_SIMILARITY, evaluator_custom_class = None,
      evaluator_kwargs = Some default_evaluator_kwargs\<rparr>"

text \<open>\<^verbatim>\<open>DataIngestOptionsConfig(**kw)\<close>.\<close>

definition validate_options ::
  "env \<Rightarrow> (string \<times> yaml) list \<Rightarrow> validation_error + DataIngestOptionsConfig" where
  "validate_options e kw =
     finish ''DataIngestOptionsConfig''
      (ap (ap (ap (ap (ap (ap (ap (ap (ap (ap (ap (ap (ap (ap
        (Inr (\<lambda>src td dl cs sz ov em vd sr opt lg dbl dbp ev.
                \<lparr>input_source = src, test_dataset = td, document_loaders = dl,
                 chunking_strategies = cs, chunk_size = sz, chunk_overlap = ov,
                 embedding_models = em, vector_databases = vd, sampling_rate = sr,
                 optimization = opt, log_config = lg, database_logging = dbl,
                 database_path = dbp, evaluation_config = ev\<rparr>))
        (field kw ''input_source'' v_input_source None))
        (field kw ''test_dataset'' v_str None))
        (field kw ''document_loaders'' (v_optional (v_list v_LoaderConfig))
           (Some (Some [default_LoaderConfig]))))
        (field kw ''chunking_strategies'' (v_optional (v_list v_ChunkingStrategyConfig))
           (Some (Some [default_ChunkingStrategyConfig]))))
        (field kw ''chunk_size'' (v_optional (v_ChunkSizeConfig e))
           (Some (Some default_ChunkSizeConfig))))
        (field kw ''chunk_overlap'' (v_optional (v_list (v_int e))) (Some (Some [100]))))
        (field kw ''embedding_models'' (v_optional (v_list v_EmbeddingConfig))
           (Some (Some [default_EmbeddingConfig]))))
        (field kw ''vector_databases'' (v_optional (v_list v_VectorDBConfig))
           (Some (Some [default_VectorDBConfig]))))
        (field kw ''sampling_rate'' (v_optional (v_float e)) (Some None)))
        (field kw ''optimization'' (v_optional (v_OptimizationConfig e))
           (Some (Some (default_OptimizationConfig e)))))
        (field kw ''log_config'' (v_optional (v_LogConfig e)) (Some (Some default_LogConfig))))
        (field kw ''database_logging'' (v_optional (v_bool e)) (Some (Some True))))
        (field kw ''database_path'' (v_optional v_str) (Some (Some ''eval.db''))))
        (field kw ''evaluation_config'' v_EvaluationConfig (Some default_EvaluationConfig)))"

text \<open>\<^verbatim>\<open>DataIngestConfig(**kw)\<close>.\<close>

definition validate_single ::
  "env \<Rightarrow> (string \<times> yaml) list \<Rightarrow> validation_error + DataIngestConfig" where
  "validate_single e kw =
     finish ''DataIngestConfig''
      (ap (ap (ap (ap (ap (ap (ap (ap (ap
        (Inr (\<lambda>src td dl cs sz ov em vd sr.
                \<lparr>input_source = src, test_dataset = td, document_loader = dl,
                 chunking_strategy = cs, single_chunk_size = sz, single_chunk_overlap = ov,
                 embedding_model = em, vector_database = vd, single_sampling_rate = sr\<rparr>))
        (field kw ''input_source'' v_input_source None))
        (field kw ''test_dataset'' v_str None))
        (field kw ''document_loader'' v_LoaderConfig (Some default_LoaderConfig)))
        (field kw ''chunking_strategy'' v_ChunkingStrategyConfig
           (Some default_ChunkingStrategyConfig)))
        (field kw ''chunk_size'' (v_int e) (Some 1000)))
        (field kw ''chunk_overlap'' (v_int e) (Some 100)))
        (field kw ''embedding_model'' v_EmbeddingConfig (Some default_EmbeddingConfig)))
        (field kw ''vector_database'' v_VectorDBConfig (Some default_VectorDBConfig)))
        (field kw ''sampling_rate'' (v_optional (v_float e)) (Some None)))"

subsection \<open>load\_config\<close>

text \<open>
  \<^verbatim>\<open>key in obj\<close> for a string \<open>key\<close>: membership among the keys of a dict, among the
  items of a list, as a substring of a string; a type error on \<^verbatim>\<open>None\<close>, booleans and
  numbers, which are not containers.
\<close>

definition py_in :: "string \<Rightarrow> yaml \<Rightarrow> error + bool" where
  "py_in key obj =
     (case obj of
        YMap d \<Rightarrow> Inr (YStr key \<in> set (map fst d))
      | YList xs \<Rightarrow> Inr (YStr key \<in> set xs)
      | YStr s \<Rightarrow> Inr (str_contains key s)
      | _ \<Rightarrow> Inl TypeError)"

text \<open>
  \<^verbatim>\<open>**config_dict\<close> in a call: the object must be a mapping and every key a string,
  otherwise the call raises a type error before the callee runs.
\<close>

definition keyword_arguments :: "yaml \<Rightarrow> error + (string \<times> yaml) list" where
  "keyword_arguments obj =
     (case obj of
        YMap d \<Rightarrow>
          (case those (map (\<lambda>p. case fst p of YStr k \<Rightarrow> Some (k, snd p) | _ \<Rightarrow> None) d) of
             None \<Rightarrow> Inl TypeError
           | Some kw \<Rightarrow> Inr kw)
      | _ \<Rightarrow> Inl TypeError)"

definition quoted :: "string \<Rightarrow> string" where
  "quoted s = CHR 0x27 # s @ [CHR 0x27]"

definition required_fields_message :: string where
  "required_fields_message =
     ''Configuration must include '' @ quoted ''input_source'' @ '' and '' @ quoted ''test_data''"

datatype attempt = Attempt_DataIngestOptionsConfig | Attempt_DataIngestConfig

text \<open>
  \<^verbatim>\<open>load_config\<close> on the content of the file. Beside the outcome (the configuration or the
  exception that leaves the function) the model returns the constructor calls that were
  started, in order. Only \<^verbatim>\<open>ValidationError\<close> is caught.
\<close>

definition load_config :: "env \<Rightarrow> ydoc \<Rightarrow> attempt list \<times> (error + config)" where
  "load_config e file =
     (case safe_load file of
        Inl err \<Rightarrow> ([], Inl err)
      | Inr config_dict \<Rightarrow>
         (case py_in ''input_source'' config_dict of
            Inl err \<Rightarrow> ([], Inl err)
          | Inr has_input_source \<Rightarrow>
             if \<not> has_input_source then ([], Inl (ValueError required_fields_message))
             else
              (case py_in ''test_dataset'' config_dict of
                 Inl err \<Rightarrow> ([], Inl err)
               | Inr has_test_dataset \<Rightarrow>
                  if \<not> has_test_dataset then ([], Inl (ValueError required_fields_message))
                  else
                   (case keyword_arguments config_dict of
                      Inl err \<Rightarrow> ([Attempt_DataIngestOptionsConfig], Inl err)
                    | Inr kw \<Rightarrow>
                       (case validate_options e kw of
                          Inr c \<Rightarrow> ([Attempt_DataIngestOptionsConfig], Inr (Options c))
                        | Inl _ \<Rightarrow>
                           (case validate_single e kw of
                              Inr c \<Rightarrow>
                                ([Attempt_DataIngestOptionsConfig, Attempt_DataIngestConfig],
                                 Inr (Single c))
                            | Inl ve \<Rightarrow>
                                ([Attempt_DataIngestOptionsConfig, Attempt_DataIngestConfig],
                                 Inl (ValueError_Invalid_configuration ve))))))))"

subsection \<open>to\_yaml and save\_config\<close>

text \<open>
  \<^verbatim>\<open>yaml.dump(self.model_dump(), file)\<close>. \<^verbatim>\<open>model_dump()\<close> keeps the members of the
  enumerations as they are, and \<^verbatim>\<open>yaml.dump\<close> writes a member of a \<^verbatim>\<open>(str, Enum)\<close> class
  as a Python object: the class under the tag \<^verbatim>\<open>!!python/object/apply\<close>, with the
  member's value as argument. Everything else is written as a plain node. The order of the
  keys of a mapping plays no role when the file is loaded; the fields are listed in the
  order of their declaration.
\<close>

definition dump_enum :: "string \<Rightarrow> string \<Rightarrow> ydoc" where
  "dump_enum class_name v =
     DPyObjectApply (''ragbuilder.config.components.'' @ class_name) [DStr v]"

definition dump_option :: "('a \<Rightarrow> ydoc) \<Rightarrow> 'a option \<Rightarrow> ydoc" where
  "dump_option f x = (case x of None \<Rightarrow> DNull | Some a \<Rightarrow> f a)"

definition dump_list :: "('a \<Rightarrow> ydoc) \<Rightarrow> 'a list \<Rightarrow> ydoc" where
  "dump_list f xs = DSeq (map f xs)"

definition dump_kwargs :: "(string \<times> yaml) list \<Rightarrow> ydoc" where
  "dump_kwargs kw = DMap (map (\<lambda>p. (DStr (fst p), represent (snd p))) kw)"

definition dump_input_source :: "input_source_value \<Rightarrow> ydoc" where
  "dump_input_source x = (case x of Source s \<Rightarrow> DStr s | Sources xs \<Rightarrow> DSeq (map DStr xs))"

definition dump_LoaderConfig :: "LoaderConfig \<Rightarrow> ydoc" where
  "dump_LoaderConfig c =
     DMap [(DStr ''type'', dump_enum ''ParserType'' (ParserType_value (loader_type c))),
           (DStr ''loader_kwargs'', dump_option dump_kwargs (loader_kwargs c)),
           (DStr ''custom_class'', dump_option DStr (loader_custom_class c))]"

definition dump_ChunkingStrategyConfig :: "ChunkingStrategyConfig \<Rightarrow> ydoc" where
  "dump_ChunkingStrategyConfig c =
     DMap [(DStr ''type'',
            dump_enum ''ChunkingStrategy'' (ChunkingStrategy_value (chunker_type c))),
           (DStr ''chunker_kwargs'', dump_option dump_kwargs (chunker_kwargs c)),
           (DStr ''custom_class'', dump_option DStr (chunker_custom_class c))]"

definition dump_ChunkSizeConfig :: "ChunkSizeConfig \<Rightarrow> ydoc" where
  "dump_ChunkSizeConfig c =
     DMap [(DStr ''min'', DInt (size_min c)), (DStr ''max'', DInt (size_max c)),
           (DStr ''stepsize'', DInt (stepsize c))]"

definition dump_VectorDBConfig :: "VectorDBConfig \<Rightarrow> ydoc" where
  "dump_VectorDBConfig c =
     DMap [(DStr ''type'',
            dump_enum ''VectorDatabase'' (VectorDatabase_value (vectordb_type c))),
           (DStr ''vectordb_kwargs'', dump_option dump_kwargs (vectordb_kwargs c)),
           (DStr ''custom_class'', dump_option DStr (vectordb_custom_class c))]"

definition dump_EmbeddingConfig :: "EmbeddingConfig \<Rightarrow> ydoc" where
  "dump_EmbeddingConfig c =
     DMap [(DStr ''type'',
            dump_enum ''EmbeddingModel'' (EmbeddingModel_value (embedding_type c))),
           (DStr ''model_kwargs'', dump_option dump_kwargs (model_kwargs c)),
           (DStr ''custom_class'', dump_option DStr (embedding_custom_class c))]"

definition dump_EvaluationConfig :: "EvaluationConfig \<Rightarrow> ydoc" where
  "dump_EvaluationConfig c =
     DMap [(DStr ''type'',
            dump_enum ''EvaluatorType'' (EvaluatorType_value (evaluator_type c))),
           (DStr ''custom_class'', dump_option DStr (evaluator_custom_class c)),
           (DStr ''evaluator_kwargs'', dump_option dump_kwargs (evaluator_kwargs c))]"

definition dump_OptimizationConfig :: "OptimizationConfig \<Rightarrow> ydoc" where
  "dump_OptimizationConfig c =
     DMap [(DStr ''type'', dump_option DStr (optimizer_type c)),
           (DStr ''n_trials'', dump_option DInt (n_trials c)),
           (DStr ''n_jobs'', dump_option DInt (n_jobs c)),
           (DStr ''timeout'', dump_option DInt (timeout c)),
           (DStr ''storage'', dump_option DStr (storage c)),
           (DStr ''study_name'', dump_option DStr (study_name c)),
           (DStr ''load_if_exists'', dump_option DBool (load_if_exists c)),
           (DStr ''overwrite_study'', dump_option DBool (overwrite_study c)),
           (DStr ''optimization_direction'', dump_option DStr (optimization_direction c))]"

definition dump_LogConfig :: "LogConfig \<Rightarrow> ydoc" where
  "dump_LogConfig c =
     DMap [(DStr ''log_level'', DInt (log_level c)),
           (DStr ''log_file'', dump_option DStr (log_file c)),
           (DStr ''show_progress_bar'', DBool (show_progress_bar c)),
           (DStr ''verbose'', DBool (verbose c))]"

definition to_yaml_options :: "DataIngestOptionsConfig \<Rightarrow> ydoc" where
  "to_yaml_options c =
     DMap [(DStr ''input_source'', dump_input_source (input_source c)),
           (DStr ''test_dataset'', DStr (test_dataset c)),
           (DStr ''document_loaders'',
            dump_option (dump_list dump_LoaderConfig) (document_loaders c)),
           (DStr ''chunking_strategies'',
            dump_option (dump_list dump_ChunkingStrategyConfig) (chunking_strategies c)),
           (DStr ''chunk_size'', dump_option dump_ChunkSizeConfig (chunk_size c)),
           (DStr ''chunk_overlap'', dump_option (dump_list DInt) (chunk_overlap c)),
           (DStr ''embedding_models'',
            dump_option (dump_list dump_EmbeddingConfig) (embedding_models c)),
           (DStr ''vector_databases'',
            dump_option (dump_list dump_VectorDBConfig) (vector_databases c)),
           (DStr ''sampling_rate'', dump_option DFloat (sampling_rate c)),
           (DStr ''optimization'', dump_option dump_OptimizationConfig (optimization c)),
           (DStr ''log_config'', dump_option dump_LogConfig (log_config c)),
           (DStr ''database_logging'', dump_option DBool (database_logging c)),
           (DStr ''database_path'', dump_option DStr (database_path c)),
           (DStr ''evaluation_config'', dump_EvaluationConfig (evaluation_config c))]"

definition to_yaml_single :: "DataIngestConfig \<Rightarrow> ydoc" where
  "to_yaml_single c =
     DMap [(DStr ''input_source'', dump_input_source (input_source c)),
           (DStr ''test_dataset'', DStr (test_dataset c)),
           (DStr ''document_loader'', dump_LoaderConfig (document_loader c)),
           (DStr ''chunking_strategy'', dump_ChunkingStrategyConfig (chunking_strategy c)),
           (DStr ''chunk_size'', DInt (single_chunk_size c)),
           (DStr ''chunk_overlap'', DInt (single_chunk_overlap c)),
           (DStr ''embedding_model'', dump_EmbeddingConfig (embedding_model c)),
           (DStr ''vector_database'', dump_VectorDBConfig (vector_database c)),
           (DStr ''sampling_rate'', dump_option DFloat (single_sampling_rate c))]"

text \<open>\<^verbatim>\<open>save_config\<close> calls \<^verbatim>\<open>config.to_yaml\<close>; the result is the content of the file.\<close>

definition save_config :: "config \<Rightarrow> ydoc" where
  "save_config c = (case c of Options oc \<Rightarrow> to_yaml_options oc | Single sc \<Rightarrow> to_yaml_single sc)"

subsection \<open>Declared fields\<close>

definition DataIngestOptionsConfig_fields :: "string list" where
  "DataIngestOptionsConfig_fields =
     [''input_source'', ''test_dataset'', ''document_loaders'', ''chunking_strategies'',
      ''chunk_size'', ''chunk_overlap'', ''embedding_models'', ''vector_databases'',
      ''sampling_rate'', ''optimization'', ''log_config'', ''database_logging'',
      ''database_path'', ''evaluation_config'']"

definition DataIngestConfig_fields :: "string list" where
  "DataIngestConfig_fields =
     [''input_source'', ''test_dataset'', ''document_loader'', ''chunking_strategy'',
      ''chunk_size'', ''chunk_overlap'', ''embedding_model'', ''vector_database'',
      ''sampling_rate'']"

subsection \<open>Constructing an optimization configuration\<close>


subsection \<open>The records made of defaults\<close>

text \<open>
  What each constructor returns when only \<open>input_source\<close> and \<open>test_dataset\<close> are
  given: every other field has the default of its declaration.
\<close>

definition DataIngestOptionsConfig_defaults ::
  "env \<Rightarrow> input_source_value \<Rightarrow> string \<Rightarrow> DataIngestOptionsConfig" where
  "DataIngestOptionsConfig_defaults e src td =
     \<lparr>input_source = src, test_dataset = td,
      document_loaders = Some [default_LoaderConfig],
      chunking_strategies = Some [default_ChunkingStrategyConfig],
      chunk_size = Some default_ChunkSizeConfig, chunk_overlap = Some [100],
      embedding_models = Some [default_EmbeddingConfig],
      vector_databases = Some [default_VectorDBConfig], sampling_rate = None,
      optimization = Some (default_OptimizationConfig e),
      log_config = Some default_LogConfig, database_logging = Some True,
      database_path = Some ''eval.db'', evaluation_config = default_EvaluationConfig\<rparr>"

definition DataIngestConfig_defaults :: "input_source_value \<Rightarrow> string \<Rightarrow> DataIngestConfig" where
  "DataIngestConfig_defaults src td =
     \<lparr>input_source = src, test_dataset = td,
      document_loader = default_LoaderConfig,
      chunking_strategy = default_ChunkingStrategyConfig,
      single_chunk_size = 1000, single_chunk_overlap = 100,
      embedding_model = default_EmbeddingConfig, vector_database = default_VectorDBConfig,
      single_sampling_rate = None\<rparr>"

subsection \<open>Sample inputs\<close>

definition sample_env :: env where
  "sample_env =
     \<lparr>class_definition_time = 25 / 2, class_definition_randint = 7,
      str_as_int = (\<lambda>s. None), str_as_float = (\<lambda>s. None), str_as_bool = (\<lambda>s. None)\<rparr>"

definition mandatory_only :: ydoc where
  "mandatory_only = DMap [(DStr ''input_source'', DStr ''docs''), (DStr ''test_dataset'', DStr ''qa.csv'')]"

definition with_singular_loader :: ydoc where
  "with_singular_loader =
     DMap [(DStr ''input_source'', DStr ''docs''), (DStr ''test_dataset'', DStr ''qa.csv''),
           (DStr ''document_loader'', DMap [(DStr ''type'', DStr ''pymupdf'')])]"

definition with_loader_list_and_int_chunk_size :: ydoc where
  "with_loader_list_and_int_chunk_size =
     DMap [(DStr ''input_source'', DStr ''docs''), (DStr ''test_dataset'', DStr ''qa.csv''),
           (DStr ''document_loaders'', DSeq [DMap [(DStr ''type'', DStr ''pymupdf'')]]),
           (DStr ''chunk_size'', DInt 1000)]"

definition with_loader_list :: ydoc where
  "with_loader_list =
     DMap [(DStr ''input_source'', DStr ''docs''), (DStr ''test_dataset'', DStr ''qa.csv''),
           (DStr ''document_loaders'', DSeq [DMap [(DStr ''type'', DStr ''pymupdf'')]])]"

definition with_unknown_key :: ydoc where
  "with_unknown_key =
     DMap [(DStr ''input_source'', DStr ''docs''), (DStr ''test_dataset'', DStr ''qa.csv''),
           (DStr ''no_such_field'', DInt 1)]"

definition with_integer_key :: ydoc where
  "with_integer_key =
     DMap [(DStr ''input_source'', DStr ''docs''), (DStr ''test_dataset'', DStr ''qa.csv''),
           (DInt 1, DStr ''x'')]"

definition without_test_dataset :: ydoc where
  "without_test_dataset = DMap [(DStr ''input_source'', DStr ''docs'')]"

definition without_input_source :: ydoc where
  "without_input_source = DMap [(DStr ''test_dataset'', DStr ''qa.csv'')]"

definition both_invalid :: ydoc where
  "both_invalid =
     DMap [(DStr ''input_source'', DInt 3), (DStr ''test_dataset'', DStr ''qa.csv''),
           (DStr ''chunk_size'', DStr ''x'')]"

section \<open>Properties of the registry\<close>

lemma str_replace_Nil: "old \<noteq> [] \<Longrightarrow> str_replace old new [] = []"
  by (subst str_replace.simps) simp

lemma str_replace_Cons:
  "old \<noteq> [] \<Longrightarrow> str_replace old new (c # cs) =
     (if take (length old) (c # cs) = old
      then new @ str_replace old new (drop (length old) (c # cs))
      else c # str_replace old new cs)"
  by (subst str_replace.simps) simp

lemma str_replace_char:
  "str_replace [a] [b] s = map (\<lambda>c. if c = a then b else c) s"
  by (induction s) (simp_all add: str_replace_Nil str_replace_Cons)

text \<open>
  C8. A package requirement spec built from a distribution name alone has as import name the
  distribution name with every hyphen replaced by an underscore; when a non-empty import name
  is given, the import name is that name, unchanged. The install name is kept in both cases.
\<close>

theorem C8_import_name:
  "import_name (mk_PkgSpec inst []) = hyphens_to_underscores inst
   \<and> (imp \<noteq> [] \<longrightarrow> import_name (mk_PkgSpec inst imp) = imp)
   \<and> install_name (mk_PkgSpec inst imp) = inst"
  by (simp add: mk_PkgSpec_def hyphens_to_underscores_def str_replace_char)

theorem C8_import_name_witness:
  "import_name (mk_PkgSpec ''python-docx'' []) = ''python_docx''
   \<and> ''docx'' \<noteq> [] \<and> import_name (mk_PkgSpec ''python-docx'' ''docx'') = ''docx''
   \<and> install_name (mk_PkgSpec ''python-docx'' ''docx'') = ''python-docx''"
  using C8_import_name [of "''python-docx''" "''docx''"]
  by (simp add: hyphens_to_underscores_def)

text \<open>
  C9. The dispatch tables do not cover their enumerations. The member \<open>CUSTOM\<close>, which is
  a value a configuration may carry (the string \<open>custom\<close> is accepted for each of the four
  types), is the one member of each of the loader, chunker, embedding and vector database
  enumerations that has no entry; the retriever table has an entry for \<open>BM25\<close> and for no
  other member.
\<close>

theorem C9_tables_partial:
  "(LOADER_MAP t1 = None) = (t1 = Parser_CUSTOM)
   \<and> (CHUNKER_MAP t2 = None) = (t2 = Chunking_CUSTOM)
   \<and> (EMBEDDING_MAP t3 = None) = (t3 = Embedding_CUSTOM)
   \<and> (VECTORDB_MAP t4 = None) = (t4 = VectorDB_CUSTOM)
   \<and> (RETRIEVER_MAP t5 = None) = (t5 \<noteq> Retriever_BM25)
   \<and> enum_of_value ParserType_value ParserType_members ''custom'' = Some Parser_CUSTOM
   \<and> enum_of_value ChunkingStrategy_value ChunkingStrategy_members ''custom''
       = Some Chunking_CUSTOM
   \<and> enum_of_value EmbeddingModel_value EmbeddingModel_members ''custom''
       = Some Embedding_CUSTOM
   \<and> enum_of_value VectorDatabase_value VectorDatabase_members ''custom''
       = Some VectorDB_CUSTOM"
proof -
  have 1: "(LOADER_MAP t1 = None) = (t1 = Parser_CUSTOM)"
    by (cases t1) (simp_all add: LOADER_MAP_def)
  have 2: "(CHUNKER_MAP t2 = None) = (t2 = Chunking_CUSTOM)"
    by (cases t2) (simp_all add: CHUNKER_MAP_def)
  have 3: "(EMBEDDING_MAP t3 = None) = (t3 = Embedding_CUSTOM)"
    by (cases t3) (simp_all add: EMBEDDING_MAP_def)
  have 4: "(VECTORDB_MAP t4 = None) = (t4 = VectorDB_CUSTOM)"
    by (cases t4) (simp_all add: VECTORDB_MAP_def)
  have 5: "(RETRIEVER_MAP t5 = None) = (t5 \<noteq> Retriever_BM25)"
    by (cases t5) (simp_all add: RETRIEVER_MAP_def)
  have 6: "enum_of_value ParserType_value ParserType_members ''custom'' = Some Parser_CUSTOM"
    by (simp add: enum_of_value_def ParserType_members_def)
  have 7: "enum_of_value ChunkingStrategy_value ChunkingStrategy_members ''custom''
             = Some Chunking_CUSTOM"
    by (simp add: enum_of_value_def ChunkingStrategy_members_def)
  have 8: "enum_of_value EmbeddingModel_value EmbeddingModel_members ''custom''
             = Some Embedding_CUSTOM"
    by (simp add: enum_of_value_def EmbeddingModel_members_def)
  have 9: "enum_of_value VectorDatabase_value VectorDatabase_members ''custom''
             = Some VectorDB_CUSTOM"
    by (simp add: enum_of_value_def VectorDatabase_members_def)
  from 1 2 3 4 5 6 7 8 9 show ?thesis by blast
qed

section \<open>Properties of the loader\<close>

subsection \<open>Keyword arguments and the shape of load\_config on a mapping\<close>

lemmas validator_defs =
  v_str_def v_int_def v_float_def v_bool_def v_optional_def v_list_def v_dict_str_any_def
  v_enum_def nested_field_def v_input_source_def v_LogConfig_def v_LoaderConfig_def
  v_ChunkingStrategyConfig_def v_ChunkSizeConfig_def v_VectorDBConfig_def
  v_EmbeddingConfig_def v_EvaluationConfig_def v_OptimizationConfig_def
  enum_of_value_def ParserType_members_def ChunkingStrategy_members_def
  EmbeddingModel_members_def VectorDatabase_members_def EvaluatorType_members_def

lemmas load_defs =
  load_config_def py_in_def keyword_arguments_def dict_of_def validate_options_def
  validate_single_def field_def finish_def

lemma those_map_keys:
  "those (map (\<lambda>p. case fst p of YStr k \<Rightarrow> Some (k, snd p) | _ \<Rightarrow> None) d) = Some kw
   \<Longrightarrow> map_of kw k = map_of d (YStr k)"
proof (induction d arbitrary: kw)
  case Nil
  then show ?case by simp
next
  case (Cons p d)
  then show ?case
    by (cases p; cases "fst p") (auto split: option.splits yaml.splits)
qed

lemma keyword_arguments_map_of:
  "keyword_arguments (YMap d) = Inr kw \<Longrightarrow> map_of kw k = map_of d (YStr k)"
  by (auto simp: keyword_arguments_def split: option.splits dest: those_map_keys)

lemma py_in_YMap: "py_in k (YMap d) = Inr (map_of d (YStr k) \<noteq> None)"
  by (simp add: py_in_def map_of_eq_None_iff)

lemma load_config_YMap:
  assumes "safe_load file = Inr (YMap d)"
  shows "load_config e file =
     (if map_of d (YStr ''input_source'') = None \<or> map_of d (YStr ''test_dataset'') = None
      then ([], Inl (ValueError required_fields_message))
      else (case keyword_arguments (YMap d) of
              Inl err \<Rightarrow> ([Attempt_DataIngestOptionsConfig], Inl err)
            | Inr kw \<Rightarrow>
               (case validate_options e kw of
                  Inr c \<Rightarrow> ([Attempt_DataIngestOptionsConfig], Inr (Options c))
                | Inl ve \<Rightarrow>
                   (case validate_single e kw of
                      Inr c \<Rightarrow>
                        ([Attempt_DataIngestOptionsConfig, Attempt_DataIngestConfig],
                         Inr (Single c))
                    | Inl ve' \<Rightarrow>
                        ([Attempt_DataIngestOptionsConfig, Attempt_DataIngestConfig],
                         Inl (ValueError_Invalid_configuration ve'))))))"
  using assms by (simp add: load_config_def py_in_YMap)

lemma finish_title: "finish t r = Inl ve \<Longrightarrow> \<exists>es. ve = ValidationError t es"
  by (auto simp: finish_def split: sum.splits)

subsection \<open>The sample documents, loaded\<close>

lemma safe_load_mandatory_only:
  "safe_load mandatory_only
     = Inr (YMap [(YStr ''input_source'', YStr ''docs''), (YStr ''test_dataset'', YStr ''qa.csv'')])"
  by (simp add: mandatory_only_def dict_of_def)

lemma safe_load_without_test_dataset:
  "safe_load without_test_dataset = Inr (YMap [(YStr ''input_source'', YStr ''docs'')])"
  by (simp add: without_test_dataset_def dict_of_def)

lemma safe_load_both_invalid:
  "safe_load both_invalid
     = Inr (YMap [(YStr ''input_source'', YInt 3), (YStr ''test_dataset'', YStr ''qa.csv''),
                  (YStr ''chunk_size'', YStr ''x'')])"
  by (simp add: both_invalid_def dict_of_def)

lemma validate_options_both_invalid:
  "validate_options sample_env
     [(''input_source'', YInt 3), (''test_dataset'', YStr ''qa.csv''), (''chunk_size'', YStr ''x'')]
   = Inl (ValidationError ''DataIngestOptionsConfig''
            [(''input_source'', Invalid), (''chunk_size'', Invalid)])"
  by (simp add: load_defs validator_defs sample_env_def)

lemma validate_single_both_invalid:
  "validate_single sample_env
     [(''input_source'', YInt 3), (''test_dataset'', YStr ''qa.csv''), (''chunk_size'', YStr ''x'')]
   = Inl (ValidationError ''DataIngestConfig''
            [(''input_source'', Invalid), (''chunk_size'', Invalid)])"
  by (simp add: load_defs validator_defs sample_env_def)

subsection \<open>Missing mandatory fields\<close>

text \<open>
  C4, as amended. A document that is a mapping and lacks \<open>input_source\<close> or
  \<open>test_dataset\<close> makes \<open>load_config\<close> fail before any of the two models is tried, with one
  fixed \<open>ValueError\<close>: the error is the same whichever of the two keys is missing, so it
  does not single out the missing one.
\<close>

theorem C4_missing_mandatory_key:
  assumes "safe_load file = Inr (YMap d)"
    and "map_of d (YStr ''input_source'') = None \<or> map_of d (YStr ''test_dataset'') = None"
  shows "load_config e file = ([], Inl (ValueError required_fields_message))"
  using assms by (simp add: load_config_YMap)

theorem C4_missing_mandatory_key_witness:
  "safe_load without_test_dataset = Inr (YMap [(YStr ''input_source'', YStr ''docs'')])
   \<and> map_of [(YStr ''input_source'', YStr ''docs'')] (YStr ''test_dataset'') = None
   \<and> load_config sample_env without_test_dataset
       = ([], Inl (ValueError required_fields_message))"
proof -
  have h: "map_of [(YStr ''input_source'', YStr ''docs'')] (YStr ''input_source'') = None
           \<or> map_of [(YStr ''input_source'', YStr ''docs'')] (YStr ''test_dataset'') = None"
    by simp
  from C4_missing_mandatory_key [OF safe_load_without_test_dataset h, of sample_env]
  show ?thesis by (simp add: safe_load_without_test_dataset)
qed

text \<open>
  The claim as stated fails: the document that lacks \<open>test_dataset\<close> only and the
  document that lacks \<open>input_source\<close> only raise the same error, so the error does
  not tell which field is missing; and its message does not contain the name
  \<open>test_dataset\<close>.
\<close>

theorem C4_counterexample:
  "load_config sample_env without_test_dataset = ([], Inl (ValueError required_fields_message))
   \<and> load_config sample_env without_input_source
       = ([], Inl (ValueError required_fields_message))
   \<and> \<not> str_contains ''test_dataset'' required_fields_message"
  by (simp add: without_test_dataset_def without_input_source_def load_config_def py_in_def
      dict_of_def required_fields_message_def quoted_def)

subsection \<open>Documents that are not mappings\<close>




subsection \<open>The two attempts\<close>

text \<open>
  C2, as amended. For a document that is a mapping with the mandatory keys and whose keys
  are all strings: the multi-option model is validated first and, when it validates, its
  record is the result; when it fails with a validation error the single-run model is
  validated, and its record is the result when it validates; when both fail, the exception
  carries the validation error of the single-run model, whatever the error of the
  multi-option model was.
\<close>

theorem C2_two_attempts:
  assumes "safe_load file = Inr (YMap d)"
    and "map_of d (YStr ''input_source'') \<noteq> None"
    and "map_of d (YStr ''test_dataset'') \<noteq> None"
    and "keyword_arguments (YMap d) = Inr kw"
  shows "(\<forall>c. validate_options e kw = Inr c \<longrightarrow>
            load_config e file = ([Attempt_DataIngestOptionsConfig], Inr (Options c)))
       \<and> (\<forall>ve c. validate_options e kw = Inl ve \<and> validate_single e kw = Inr c \<longrightarrow>
            load_config e file
              = ([Attempt_DataIngestOptionsConfig, Attempt_DataIngestConfig], Inr (Single c)))
       \<and> (\<forall>ve ve'. validate_options e kw = Inl ve \<and> validate_single e kw = Inl ve' \<longrightarrow>
            load_config e file
              = ([Attempt_DataIngestOptionsConfig, Attempt_DataIngestConfig],
                 Inl (ValueError_Invalid_configuration ve'))
            \<and> (\<exists>es. ve' = ValidationError ''DataIngestConfig'' es))"
  using assms
  by (auto simp: load_config_YMap validate_single_def dest: finish_title)

theorem C2_two_attempts_witness:
  "safe_load both_invalid
     = Inr (YMap [(YStr ''input_source'', YInt 3), (YStr ''test_dataset'', YStr ''qa.csv''),
                  (YStr ''chunk_size'', YStr ''x'')])
   \<and> validate_options sample_env
        [(''input_source'', YInt 3), (''test_dataset'', YStr ''qa.csv''), (''chunk_size'', YStr ''x'')]
       = Inl (ValidationError ''DataIngestOptionsConfig''
                [(''input_source'', Invalid), (''chunk_size'', Invalid)])
   \<and> load_config sample_env both_invalid
       = ([Attempt_DataIngestOptionsConfig, Attempt_DataIngestConfig],
          Inl (ValueError_Invalid_configuration
                (ValidationError ''DataIngestConfig''
                   [(''input_source'', Invalid), (''chunk_size'', Invalid)])))"
proof -
  let ?d = "[(YStr ''input_source'', YInt 3), (YStr ''test_dataset'', YStr ''qa.csv''),
             (YStr ''chunk_size'', YStr ''x'')]"
  let ?kw = "[(''input_source'', YInt 3), (''test_dataset'', YStr ''qa.csv''),
              (''chunk_size'', YStr ''x'')]"
  have 1: "map_of ?d (YStr ''input_source'') \<noteq> None" by simp
  have 2: "map_of ?d (YStr ''test_dataset'') \<noteq> None" by simp
  have 3: "keyword_arguments (YMap ?d) = Inr ?kw" by (simp add: keyword_arguments_def)
  from C2_two_attempts [OF safe_load_both_invalid 1 2 3, of sample_env]
  show ?thesis
    using validate_options_both_invalid validate_single_both_invalid safe_load_both_invalid
    by simp
qed

text \<open>
  The claim as stated fails: with a key that is not a string, the first constructor call
  raises a type error, which is not caught, and the single-run model is not tried.
\<close>

theorem C2_counterexample:
  "load_config sample_env with_integer_key
     = ([Attempt_DataIngestOptionsConfig], Inl TypeError)"
  by (simp add: with_integer_key_def load_config_def py_in_def keyword_arguments_def
      dict_of_def)

subsection \<open>Which model a document loads as\<close>

lemma ap_Inr_iff: "ap f x = Inr y \<longleftrightarrow> (\<exists>g a. f = Inr g \<and> x = Inr a \<and> y = g a)"
  by (cases f; cases x) auto

lemma finish_Inr_iff: "finish t r = Inr c \<longleftrightarrow> r = Inr c"
  by (cases r) (simp_all add: finish_def)

lemma field_delete_other:
  "n \<noteq> k \<Longrightarrow> field (AList.delete k kw) n v D = field kw n v D"
  by (simp add: field_def)

lemma field_delete_same: "field (AList.delete k kw) k v (Some a) = Inr a"
  by (simp add: field_def delete_conv)

lemma validate_options_delete_singular:
  "validate_options e (AList.delete ''document_loader'' kw) = validate_options e kw"
  by (simp add: validate_options_def field_delete_other)

lemma validate_options_loader_list:
  assumes "validate_options e (AList.delete ''document_loaders'' kw) = Inr c"
    and "map_of kw ''document_loaders'' = Some (YList xs)"
    and "those (map v_LoaderConfig xs) = Some ls"
  shows "validate_options e kw = Inr (c\<lparr>document_loaders := Some ls\<rparr>)"
proof -
  have f_dl:
    "field kw ''document_loaders'' (v_optional (v_list v_LoaderConfig)) D = Inr (Some ls)" for D
    using assms(2,3) by (simp add: field_def v_optional_def v_list_def)
  from assms(1) show ?thesis
    unfolding validate_options_def
    by (clarsimp simp: field_delete_other field_delete_same f_dl finish_Inr_iff ap_Inr_iff)
qed

lemma validate_options_mandatory_only:
  assumes "\<And>n. n \<noteq> ''input_source'' \<Longrightarrow> n \<noteq> ''test_dataset'' \<Longrightarrow> map_of kw n = None"
    and "map_of kw ''input_source'' = Some a" and "v_input_source a = Some src"
    and "map_of kw ''test_dataset'' = Some (YStr td)"
  shows "validate_options e kw = Inr (DataIngestOptionsConfig_defaults e src td)"
  using assms(2-4)
  by (simp add: validate_options_def field_def finish_def assms(1) v_str_def
      DataIngestOptionsConfig_defaults_def)

lemma validate_single_mandatory_only:
  assumes "\<And>n. n \<noteq> ''input_source'' \<Longrightarrow> n \<noteq> ''test_dataset'' \<Longrightarrow> map_of kw n = None"
    and "map_of kw ''input_source'' = Some a" and "v_input_source a = Some src"
    and "map_of kw ''test_dataset'' = Some (YStr td)"
  shows "validate_single e kw = Inr (DataIngestConfig_defaults src td)"
  using assms(2-4)
  by (simp add: validate_single_def field_def finish_def assms(1) v_str_def
      DataIngestConfig_defaults_def)

lemma safe_load_with_singular_loader:
  "safe_load with_singular_loader
     = Inr (YMap [(YStr ''input_source'', YStr ''docs''), (YStr ''test_dataset'', YStr ''qa.csv''),
                  (YStr ''document_loader'', YMap [(YStr ''type'', YStr ''pymupdf'')])])"
  by (simp add: with_singular_loader_def dict_of_def)

lemma safe_load_with_loader_list:
  "safe_load with_loader_list
     = Inr (YMap [(YStr ''input_source'', YStr ''docs''), (YStr ''test_dataset'', YStr ''qa.csv''),
                  (YStr ''document_loaders'', YList [YMap [(YStr ''type'', YStr ''pymupdf'')]])])"
  by (simp add: with_loader_list_def dict_of_def)

lemma safe_load_with_loader_list_and_int_chunk_size:
  "safe_load with_loader_list_and_int_chunk_size
     = Inr (YMap [(YStr ''input_source'', YStr ''docs''), (YStr ''test_dataset'', YStr ''qa.csv''),
                  (YStr ''document_loaders'', YList [YMap [(YStr ''type'', YStr ''pymupdf'')]]),
                  (YStr ''chunk_size'', YInt 1000)])"
  by (simp add: with_loader_list_and_int_chunk_size_def dict_of_def)

lemma safe_load_with_unknown_key:
  "safe_load with_unknown_key
     = Inr (YMap [(YStr ''input_source'', YStr ''docs''), (YStr ''test_dataset'', YStr ''qa.csv''),
                  (YStr ''no_such_field'', YInt 1)])"
  by (simp add: with_unknown_key_def dict_of_def)

lemma validate_options_sample_mandatory:
  "validate_options sample_env
     [(''input_source'', YStr ''docs''), (''test_dataset'', YStr ''qa.csv'')]
   = Inr (DataIngestOptionsConfig_defaults sample_env (Source ''docs'') ''qa.csv'')"
  by (rule validate_options_mandatory_only [where a = "YStr ''docs''"])
     (simp_all add: v_input_source_def)

lemma validate_options_int_chunk_size:
  "validate_options sample_env
     [(''input_source'', YStr ''docs''), (''test_dataset'', YStr ''qa.csv''),
      (''document_loaders'', YList [YMap [(YStr ''type'', YStr ''pymupdf'')]]),
      (''chunk_size'', YInt 1000)]
   = Inl (ValidationError ''DataIngestOptionsConfig'' [(''chunk_size'', Invalid)])"
  by (simp add: load_defs validator_defs)

lemma validate_single_int_chunk_size:
  "validate_single sample_env
     [(''input_source'', YStr ''docs''), (''test_dataset'', YStr ''qa.csv''),
      (''document_loaders'', YList [YMap [(YStr ''type'', YStr ''pymupdf'')]]),
      (''chunk_size'', YInt 1000)]
   = Inr (DataIngestConfig_defaults (Source ''docs'') ''qa.csv'')"
  by (simp add: load_defs validator_defs DataIngestConfig_defaults_def)

text \<open>
  C1, as amended. A document that is a mapping with \<open>input_source\<close> (a string or a list
  of strings), \<open>test_dataset\<close> (a string) and no other key loads successfully, on the
  first attempt, as the multi-option model with the defaults of that model: chunk size from
  100 to 500 in steps of 100, chunk overlap \<open>[100]\<close>, the local sentence-embedding model
  and the local in-memory (FAISS) vector database, each as a list of one. The defaults of the
  single-run model (chunk size 1000, chunk overlap 100, the same embedding model and vector
  database) are what its own constructor gives on those keyword arguments, but
  \<open>load_config\<close> does not get to call it.
\<close>

theorem C1_mandatory_only_loads_as_options:
  assumes "safe_load file = Inr (YMap d)"
    and "fst ` set d = {YStr ''input_source'', YStr ''test_dataset''}"
    and "map_of d (YStr ''input_source'') = Some a" and "v_input_source a = Some src"
    and "map_of d (YStr ''test_dataset'') = Some (YStr td)"
    and "keyword_arguments (YMap d) = Inr kw"
  shows "load_config e file
           = ([Attempt_DataIngestOptionsConfig],
              Inr (Options (DataIngestOptionsConfig_defaults e src td)))
       \<and> validate_single e kw = Inr (DataIngestConfig_defaults src td)"
proof -
  have look: "map_of kw n = map_of d (YStr n)" for n
    using assms(6) by (rule keyword_arguments_map_of)
  have none: "n \<noteq> ''input_source'' \<Longrightarrow> n \<noteq> ''test_dataset'' \<Longrightarrow> map_of kw n = None" for n
    using assms(2) by (simp add: look map_of_eq_None_iff)
  have a: "map_of kw ''input_source'' = Some a" and t: "map_of kw ''test_dataset'' = Some (YStr td)"
    using assms(3,5) by (simp_all add: look)
  have "validate_options e kw = Inr (DataIngestOptionsConfig_defaults e src td)"
    using none a assms(4) t by (rule validate_options_mandatory_only)
  moreover have "validate_single e kw = Inr (DataIngestConfig_defaults src td)"
    using none a assms(4) t by (rule validate_single_mandatory_only)
  ultimately show ?thesis
    using assms by (simp add: load_config_YMap)
qed

theorem C1_mandatory_only_loads_as_options_witness:
  "safe_load mandatory_only
     = Inr (YMap [(YStr ''input_source'', YStr ''docs''), (YStr ''test_dataset'', YStr ''qa.csv'')])
   \<and> v_input_source (YStr ''docs'') = Some (Source ''docs'')
   \<and> load_config sample_env mandatory_only
       = ([Attempt_DataIngestOptionsConfig],
          Inr (Options (DataIngestOptionsConfig_defaults sample_env (Source ''docs'') ''qa.csv'')))
   \<and> validate_single sample_env
        [(''input_source'', YStr ''docs''), (''test_dataset'', YStr ''qa.csv'')]
       = Inr (DataIngestConfig_defaults (Source ''docs'') ''qa.csv'')"
proof -
  let ?d = "[(YStr ''input_source'', YStr ''docs''), (YStr ''test_dataset'', YStr ''qa.csv'')]"
  have 2: "fst ` set ?d = {YStr ''input_source'', YStr ''test_dataset''}" by simp
  have 3: "map_of ?d (YStr ''input_source'') = Some (YStr ''docs'')" by simp
  have 4: "v_input_source (YStr ''docs'') = Some (Source ''docs'')"
    by (simp add: v_input_source_def)
  have 5: "map_of ?d (YStr ''test_dataset'') = Some (YStr ''qa.csv'')" by simp
  have 6: "keyword_arguments (YMap ?d)
             = Inr [(''input_source'', YStr ''docs''), (''test_dataset'', YStr ''qa.csv'')]"
    by (simp add: keyword_arguments_def)
  from C1_mandatory_only_loads_as_options [OF safe_load_mandatory_only 2 3 4 5 6, of sample_env]
  show ?thesis using safe_load_mandatory_only 4 by simp
qed

text \<open>
  The claim as stated fails: the document with the two mandatory keys and nothing else
  loads as the multi-option model, not as the single-run model.
\<close>

theorem C1_counterexample:
  "load_config sample_env mandatory_only
     = ([Attempt_DataIngestOptionsConfig],
        Inr (Options (DataIngestOptionsConfig_defaults sample_env (Source ''docs'') ''qa.csv'')))
   \<and> snd (load_config sample_env mandatory_only)
       \<noteq> Inr (Single (DataIngestConfig_defaults (Source ''docs'') ''qa.csv''))"
  using validate_options_sample_mandatory
  by (simp add: load_config_YMap [OF safe_load_mandatory_only] keyword_arguments_def)

text \<open>
  C3, as amended. For a document that is a mapping with the mandatory keys and string keys
  only: (1) when \<open>document_loaders\<close> is a list of valid loader configurations, of any
  length and so also of one element, and the rest of the document validates against the
  multi-option model, the document loads as the multi-option model with those loaders;
  (2) the key \<open>document_loader\<close> (singular) is not a field of the multi-option model and
  is ignored by it, so a document that validates against the multi-option model without that
  key loads as the multi-option model with it, whatever its value; (3) the document loads as
  the single-run model exactly when validation against the multi-option model fails and
  validation against the single-run model succeeds.
\<close>

theorem C3_variant_by_validation:
  assumes "safe_load file = Inr (YMap d)"
    and "map_of d (YStr ''input_source'') \<noteq> None"
    and "map_of d (YStr ''test_dataset'') \<noteq> None"
    and "keyword_arguments (YMap d) = Inr kw"
  shows "(\<forall>c xs ls. validate_options e (AList.delete ''document_loaders'' kw) = Inr c
            \<and> map_of kw ''document_loaders'' = Some (YList xs)
            \<and> those (map v_LoaderConfig xs) = Some ls \<longrightarrow>
            load_config e file
              = ([Attempt_DataIngestOptionsConfig],
                 Inr (Options (c\<lparr>document_loaders := Some ls\<rparr>))))
       \<and> (\<forall>c. validate_options e (AList.delete ''document_loader'' kw) = Inr c \<longrightarrow>
            load_config e file = ([Attempt_DataIngestOptionsConfig], Inr (Options c)))
       \<and> ((\<exists>c. snd (load_config e file) = Inr (Single c))
           = ((\<exists>ve. validate_options e kw = Inl ve) \<and> (\<exists>c. validate_single e kw = Inr c)))"
proof (intro conjI allI impI)
  fix c xs ls
  assume "validate_options e (AList.delete ''document_loaders'' kw) = Inr c
            \<and> map_of kw ''document_loaders'' = Some (YList xs)
            \<and> those (map v_LoaderConfig xs) = Some ls"
  then have "validate_options e kw = Inr (c\<lparr>document_loaders := Some ls\<rparr>)"
    by (auto intro: validate_options_loader_list)
  then show "load_config e file
               = ([Attempt_DataIngestOptionsConfig],
                  Inr (Options (c\<lparr>document_loaders := Some ls\<rparr>)))"
    using assms by (simp add: load_config_YMap)
next
  fix c
  assume "validate_options e (AList.delete ''document_loader'' kw) = Inr c"
  then have "validate_options e kw = Inr c"
    by (simp add: validate_options_delete_singular)
  then show "load_config e file = ([Attempt_DataIngestOptionsConfig], Inr (Options c))"
    using assms by (simp add: load_config_YMap)
next
  show "(\<exists>c. snd (load_config e file) = Inr (Single c))
           = ((\<exists>ve. validate_options e kw = Inl ve) \<and> (\<exists>c. validate_single e kw = Inr c))"
    using assms by (auto simp: load_config_YMap split: sum.splits)
qed

theorem C3_variant_by_validation_witness:
  "load_config sample_env with_loader_list
     = ([Attempt_DataIngestOptionsConfig],
        Inr (Options ((DataIngestOptionsConfig_defaults sample_env (Source ''docs'') ''qa.csv'')
               \<lparr>document_loaders :=
                  Some [\<lparr>loader_type = Parser_PYMUPDF, loader_kwargs = None,
                         loader_custom_class = None\<rparr>]\<rparr>)))
   \<and> load_config sample_env with_singular_loader
       = ([Attempt_DataIngestOptionsConfig],
          Inr (Options (DataIngestOptionsConfig_defaults sample_env (Source ''docs'') ''qa.csv'')))
   \<and> (\<exists>c. snd (load_config sample_env with_loader_list_and_int_chunk_size) = Inr (Single c))"
proof -
  let ?loader = "YMap [(YStr ''type'', YStr ''pymupdf'')]"
  let ?d1 = "[(YStr ''input_source'', YStr ''docs''), (YStr ''test_dataset'', YStr ''qa.csv''),
              (YStr ''document_loaders'', YList [?loader])]"
  let ?k1 = "[(''input_source'', YStr ''docs''), (''test_dataset'', YStr ''qa.csv''),
              (''document_loaders'', YList [?loader])]"
  let ?d2 = "[(YStr ''input_source'', YStr ''docs''), (YStr ''test_dataset'', YStr ''qa.csv''),
              (YStr ''document_loader'', ?loader)]"
  let ?k2 = "[(''input_source'', YStr ''docs''), (''test_dataset'', YStr ''qa.csv''),
              (''document_loader'', ?loader)]"
  let ?d3 = "[(YStr ''input_source'', YStr ''docs''), (YStr ''test_dataset'', YStr ''qa.csv''),
              (YStr ''document_loaders'', YList [?loader]), (YStr ''chunk_size'', YInt 1000)]"
  let ?k3 = "[(''input_source'', YStr ''docs''), (''test_dataset'', YStr ''qa.csv''),
              (''document_loaders'', YList [?loader]), (''chunk_size'', YInt 1000)]"
  have a1: "map_of ?d1 (YStr ''input_source'') \<noteq> None" "map_of ?d1 (YStr ''test_dataset'') \<noteq> None"
    "keyword_arguments (YMap ?d1) = Inr ?k1"
    by (simp_all add: keyword_arguments_def)
  have a2: "map_of ?d2 (YStr ''input_source'') \<noteq> None" "map_of ?d2 (YStr ''test_dataset'') \<noteq> None"
    "keyword_arguments (YMap ?d2) = Inr ?k2"
    by (simp_all add: keyword_arguments_def)
  have a3: "map_of ?d3 (YStr ''input_source'') \<noteq> None" "map_of ?d3 (YStr ''test_dataset'') \<noteq> None"
    "keyword_arguments (YMap ?d3) = Inr ?k3"
    by (simp_all add: keyword_arguments_def)
  have v1: "validate_options sample_env (AList.delete ''document_loaders'' ?k1)
              = Inr (DataIngestOptionsConfig_defaults sample_env (Source ''docs'') ''qa.csv'')"
    using validate_options_sample_mandatory by simp
  have l1: "map_of ?k1 ''document_loaders'' = Some (YList [?loader])" by simp
  have l1': "those (map v_LoaderConfig [?loader])
              = Some [\<lparr>loader_type = Parser_PYMUPDF, loader_kwargs = None, loader_custom_class = None\<rparr>]"
    by (simp add: validator_defs)
  have v2: "validate_options sample_env (AList.delete ''document_loader'' ?k2)
              = Inr (DataIngestOptionsConfig_defaults sample_env (Source ''docs'') ''qa.csv'')"
    using validate_options_sample_mandatory by simp
  note t1 = C3_variant_by_validation [OF safe_load_with_loader_list a1, of sample_env]
  note t2 = C3_variant_by_validation [OF safe_load_with_singular_loader a2, of sample_env]
  note t3 = C3_variant_by_validation [OF safe_load_with_loader_list_and_int_chunk_size a3, of sample_env]
  from t1 v1 l1 l1' have r1: "load_config sample_env with_loader_list
     = ([Attempt_DataIngestOptionsConfig],
        Inr (Options ((DataIngestOptionsConfig_defaults sample_env (Source ''docs'') ''qa.csv'')
               \<lparr>document_loaders :=
                  Some [\<lparr>loader_type = Parser_PYMUPDF, loader_kwargs = None,
                         loader_custom_class = None\<rparr>]\<rparr>)))"
    by blast
  from t2 v2 have r2: "load_config sample_env with_singular_loader
       = ([Attempt_DataIngestOptionsConfig],
          Inr (Options (DataIngestOptionsConfig_defaults sample_env (Source ''docs'') ''qa.csv'')))"
    by blast
  from t3 validate_options_int_chunk_size validate_single_int_chunk_size
  have r3: "\<exists>c. snd (load_config sample_env with_loader_list_and_int_chunk_size) = Inr (Single c)"
    by blast
  from r1 r2 r3 show ?thesis by blast
qed

text \<open>
  The claim as stated fails in both halves: the document whose \<open>document_loader\<close> is
  a single mapping loads as the multi-option model, and the document whose
  \<open>document_loaders\<close> is a list of one element and whose \<open>chunk_size\<close> is an integer
  loads as the single-run model.
\<close>

theorem C3_counterexample:
  "load_config sample_env with_singular_loader
     = ([Attempt_DataIngestOptionsConfig],
        Inr (Options (DataIngestOptionsConfig_defaults sample_env (Source ''docs'') ''qa.csv'')))
   \<and> load_config sample_env with_loader_list_and_int_chunk_size
       = ([Attempt_DataIngestOptionsConfig, Attempt_DataIngestConfig],
          Inr (Single (DataIngestConfig_defaults (Source ''docs'') ''qa.csv'')))"
proof -
  have "validate_options sample_env
          [(''input_source'', YStr ''docs''), (''test_dataset'', YStr ''qa.csv''),
           (''document_loader'', YMap [(YStr ''type'', YStr ''pymupdf'')])]
        = Inr (DataIngestOptionsConfig_defaults sample_env (Source ''docs'') ''qa.csv'')"
    using validate_options_delete_singular [of sample_env
            "[(''input_source'', YStr ''docs''), (''test_dataset'', YStr ''qa.csv''),
              (''document_loader'', YMap [(YStr ''type'', YStr ''pymupdf'')])]"]
          validate_options_sample_mandatory
    by simp
  then show ?thesis
    using validate_options_int_chunk_size validate_single_int_chunk_size
    by (simp add: load_config_YMap [OF safe_load_with_singular_loader]
        load_config_YMap [OF safe_load_with_loader_list_and_int_chunk_size]
        keyword_arguments_def)
qed

subsection \<open>Keys that no model declares\<close>

lemma validate_options_ignores:
  assumes "k \<notin> set DataIngestOptionsConfig_fields"
  shows "validate_options e (AList.delete k kw) = validate_options e kw"
proof -
  have eq: "field (AList.delete k kw) n v D = field kw n v D"
    if "n \<in> set DataIngestOptionsConfig_fields" for n and v :: "yaml \<Rightarrow> 'a option" and D
  proof -
    from that assms have "n \<noteq> k" by auto
    then show ?thesis by (rule field_delete_other)
  qed
  show ?thesis
    unfolding validate_options_def
    by (simp add: eq DataIngestOptionsConfig_fields_def)
qed

lemma validate_single_ignores:
  assumes "k \<notin> set DataIngestConfig_fields"
  shows "validate_single e (AList.delete k kw) = validate_single e kw"
proof -
  have eq: "field (AList.delete k kw) n v D = field kw n v D"
    if "n \<in> set DataIngestConfig_fields" for n and v :: "yaml \<Rightarrow> 'a option" and D
  proof -
    from that assms have "n \<noteq> k" by auto
    then show ?thesis by (rule field_delete_other)
  qed
  show ?thesis
    unfolding validate_single_def
    by (simp add: eq DataIngestConfig_fields_def)
qed

text \<open>
  C5, as amended. A key that is not a declared field of the model being validated is
  ignored by the validation of that model: the outcome, a record or a validation error, is
  the one for the keyword arguments without that key. Unknown keys are silently accepted.
\<close>

theorem C5_undeclared_keys_ignored:
  "(k \<notin> set DataIngestOptionsConfig_fields \<longrightarrow>
      validate_options e (AList.delete k kw) = validate_options e kw)
   \<and> (k \<notin> set DataIngestConfig_fields \<longrightarrow>
      validate_single e (AList.delete k kw) = validate_single e kw)"
  using validate_options_ignores [of k e kw] validate_single_ignores [of k e kw]
  by blast

theorem C5_undeclared_keys_ignored_witness:
  "''no_such_field'' \<notin> set DataIngestOptionsConfig_fields
   \<and> ''no_such_field'' \<notin> set DataIngestConfig_fields
   \<and> validate_options sample_env
        [(''input_source'', YStr ''docs''), (''test_dataset'', YStr ''qa.csv''),
         (''no_such_field'', YInt 1)]
       = validate_options sample_env
           [(''input_source'', YStr ''docs''), (''test_dataset'', YStr ''qa.csv'')]
   \<and> validate_single sample_env
        [(''input_source'', YStr ''docs''), (''test_dataset'', YStr ''qa.csv''),
         (''no_such_field'', YInt 1)]
       = validate_single sample_env
           [(''input_source'', YStr ''docs''), (''test_dataset'', YStr ''qa.csv'')]"
  using C5_undeclared_keys_ignored [of "''no_such_field''" sample_env
          "[(''input_source'', YStr ''docs''), (''test_dataset'', YStr ''qa.csv''),
            (''no_such_field'', YInt 1)]"]
  by (simp add: DataIngestOptionsConfig_fields_def DataIngestConfig_fields_def)

text \<open>
  The claim as stated fails: the document with the key \<open>no_such_field\<close>, which neither
  model declares, is not rejected; it loads as the multi-option model with its defaults.
\<close>

theorem C5_counterexample:
  "load_config sample_env with_unknown_key
     = ([Attempt_DataIngestOptionsConfig],
        Inr (Options (DataIngestOptionsConfig_defaults sample_env (Source ''docs'') ''qa.csv'')))"
proof -
  have "validate_options sample_env
          [(''input_source'', YStr ''docs''), (''test_dataset'', YStr ''qa.csv''),
           (''no_such_field'', YInt 1)]
        = Inr (DataIngestOptionsConfig_defaults sample_env (Source ''docs'') ''qa.csv'')"
    using validate_options_ignores [of "''no_such_field''" sample_env
            "[(''input_source'', YStr ''docs''), (''test_dataset'', YStr ''qa.csv''),
              (''no_such_field'', YInt 1)]"]
          validate_options_sample_mandatory
    by (simp add: DataIngestOptionsConfig_fields_def)
  then show ?thesis
    by (simp add: load_config_YMap [OF safe_load_with_unknown_key] keyword_arguments_def)
qed

subsection \<open>Saving and loading again\<close>

lemma sequence_sum_Inl_mem: "sequence_sum xs = Inl e \<Longrightarrow> Inl e \<in> set xs"
  by (induction xs) (auto split: sum.splits)

lemma sequence_sum_fails: "Inl e \<in> set xs \<Longrightarrow> \<exists>e'. sequence_sum xs = Inl e'"
  by (induction xs) (auto split: sum.splits)

lemma safe_load_error: "safe_load d = Inl e \<Longrightarrow> e = ConstructorError"
proof (induction d arbitrary: e rule: safe_load.induct)
  case (6 xs)
  then obtain e' where "sequence_sum (map safe_load xs) = Inl e'" and "e = e'"
    by (auto split: sum.splits)
  then have "Inl e \<in> set (map safe_load xs)"
    by (auto dest: sequence_sum_Inl_mem)
  then obtain x where "x \<in> set xs" and "safe_load x = Inl e" by auto
  then show ?case using "6.IH" by blast
next
  case (7 ps)
  let ?f = "\<lambda>p. case safe_load (fst p) of
                  Inl e \<Rightarrow> Inl e
                | Inr k \<Rightarrow>
                    if hashable k
                    then (case safe_load (snd p) of
                            Inl e \<Rightarrow> Inl e
                          | Inr v \<Rightarrow> Inr (k, v))
                    else Inl ConstructorError"
  from "7.prems" have "sequence_sum (map ?f ps) = Inl e"
    by (auto split: sum.splits)
  then have "Inl e \<in> set (map ?f ps)" by (rule sequence_sum_Inl_mem)
  then obtain p where p: "p \<in> set ps" and fp: "?f p = Inl e" by auto
  show ?case
  proof (cases "safe_load (fst p)")
    case (Inl e1)
    with fp have "e = e1" by simp
    with Inl "7.IH"(1) [OF p] show ?thesis by blast
  next
    case (Inr k)
    show ?thesis
    proof (cases "hashable k")
      case True
      with Inr fp have "safe_load (snd p) = Inl e" by (auto split: sum.splits)
      with "7.IH"(2) [OF p Inr True] show ?thesis by blast
    next
      case False
      with Inr fp show ?thesis by simp
    qed
  qed
qed simp_all


lemma pair_fails:
  assumes "safe_load v = Inl e"
  shows "\<exists>e1. (case safe_load (fst (k, v)) of
                  Inl e' \<Rightarrow> Inl e'
                | Inr k' \<Rightarrow>
                    if hashable k'
                    then (case safe_load (snd (k, v)) of
                            Inl e' \<Rightarrow> Inl e'
                          | Inr v' \<Rightarrow> Inr (k', v'))
                    else Inl ConstructorError) = Inl e1"
  using assms by (cases "safe_load k") simp_all

lemma safe_load_DMap_Inl:
  assumes "sequence_sum (map (\<lambda>p. case safe_load (fst p) of
                  Inl e \<Rightarrow> Inl e
                | Inr k \<Rightarrow>
                    if hashable k
                    then (case safe_load (snd p) of
                            Inl e \<Rightarrow> Inl e
                          | Inr v \<Rightarrow> Inr (k, v))
                    else Inl ConstructorError) ps) = Inl e2"
  shows "safe_load (DMap ps) = Inl e2"
  by (subst safe_load.simps) (simp only: assms sum.case)


lemma mem_map: "x \<in> set xs \<Longrightarrow> g x = y \<Longrightarrow> y \<in> set (map g xs)"
  by auto

lemma safe_load_DMap_fails:
  assumes "(k, v) \<in> set ps" and "safe_load v = Inl e"
  shows "safe_load (DMap ps) = Inl ConstructorError"
proof -
  define f where "f = (\<lambda>p. case safe_load (fst p) of
                  Inl e \<Rightarrow> Inl e
                | Inr k \<Rightarrow>
                    if hashable k
                    then (case safe_load (snd p) of
                            Inl e \<Rightarrow> Inl e
                          | Inr v \<Rightarrow> Inr (k, v))
                    else Inl ConstructorError)"
  from pair_fails [OF assms(2), of k] have "\<exists>e1. f (k, v) = Inl e1"
    unfolding f_def .
  then obtain e1 where e1: "f (k, v) = Inl e1" ..
  have "Inl e1 \<in> set (map f ps)"
    using assms(1) e1 by (rule mem_map)
  then have "\<exists>e2. sequence_sum (map f ps) = Inl e2"
    by (rule sequence_sum_fails)
  then obtain e2 where "sequence_sum (map f ps) = Inl e2" ..
  then have "safe_load (DMap ps) = Inl e2"
    unfolding f_def by (rule safe_load_DMap_Inl)
  moreover from this have "e2 = ConstructorError" by (rule safe_load_error)
  ultimately show ?thesis by simp
qed

lemma safe_load_dump_enum: "safe_load (dump_enum c v) = Inl ConstructorError"
  by (simp add: dump_enum_def)

lemma safe_load_dump_EvaluationConfig:
  "safe_load (dump_EvaluationConfig c) = Inl ConstructorError"
  unfolding dump_EvaluationConfig_def
  by (rule safe_load_DMap_fails [where k = "DStr ''type''", OF _ safe_load_dump_enum]) simp

lemma safe_load_dump_LoaderConfig:
  "safe_load (dump_LoaderConfig c) = Inl ConstructorError"
  unfolding dump_LoaderConfig_def
  by (rule safe_load_DMap_fails [where k = "DStr ''type''", OF _ safe_load_dump_enum]) simp

lemma safe_load_to_yaml_options: "safe_load (to_yaml_options c) = Inl ConstructorError"
  unfolding to_yaml_options_def
  by (rule safe_load_DMap_fails [where k = "DStr ''evaluation_config''",
        OF _ safe_load_dump_EvaluationConfig]) simp

lemma safe_load_to_yaml_single: "safe_load (to_yaml_single c) = Inl ConstructorError"
  unfolding to_yaml_single_def
  by (rule safe_load_DMap_fails [where k = "DStr ''document_loader''",
        OF _ safe_load_dump_LoaderConfig]) simp

text \<open>
  The part of a record that holds no member of an enumeration does come back: a chunk size
  configuration, written and loaded, validates to itself.
\<close>

lemma ChunkSizeConfig_round_trip:
  "\<exists>y. safe_load (dump_ChunkSizeConfig c) = Inr y \<and> v_ChunkSizeConfig e y = Some c"
  by (simp add: dump_ChunkSizeConfig_def dict_of_def v_ChunkSizeConfig_def nested_field_def
      v_int_def)

text \<open>
  C6. The claim is that a record saved with \<open>save_config\<close> and loaded again with
  \<open>load_config\<close> comes back equal. The code does not do that: every record holds a
  member of an enumeration (the evaluator type of the multi-option model, the parser type of
  the loader of the single-run model), \<open>to_yaml\<close> writes it under a Python object
  tag, and \<open>yaml.safe_load\<close> refuses the tag. Loading a saved file raises a constructor
  error before the mandatory-field check, for every record and so for every record that
  \<open>load_config\<close> returned.
\<close>

theorem C6_saved_file_does_not_load: "load_config e (save_config c) = ([], Inl ConstructorError)"
  by (cases c)
     (simp_all add: load_config_def save_config_def safe_load_to_yaml_options
        safe_load_to_yaml_single)

subsection \<open>The default study name\<close>


















end
